theory Spec2Isabelle
  imports Main "HOL-Library.Word"
begin

unbundle bit_operations_syntax

section \<open>Kernel timers plugin (timers.py): data model\<close>

text \<open>
  The plugin enumerates \<open>_KTIMER\<close> objects of a Windows memory image, decodes the
  obfuscated \<open>Dpc\<close> pointer of each timer on 64-bit targets, and attributes the
  DPC routine to a loaded module. Python integers that hold 64-bit image values
  (the stored \<open>Dpc\<close> field, the object offset, the two PatchGuard secrets) are
  \<open>64 word\<close>; addresses computed with Python's unbounded arithmetic are \<open>int\<close>.
\<close>

type_synonym u64 = "64 word"
type_synonym byte = "8 word"

datatype py_error = IndexError | StructError

subsection \<open>Helpers of \<open>volatility.plugins.patchguard\<close>\<close>

text \<open>
  Modelled from the spec: \<open>patchguard.rol\<close>, imported by timers.py and not part of
  the source file. The spec calls it \<open>rotate_left64\<close>, a rotation of the 64-bit
  value to the left, the amount taken modulo 64.
\<close>

definition rol :: "u64 \<Rightarrow> nat \<Rightarrow> u64" where
  "rol v count = word_rotl (count mod 64) v"

text \<open>The bytes of a 64-bit value, least significant first, and back.\<close>

definition byte_at :: "u64 \<Rightarrow> nat \<Rightarrow> byte" where
  "byte_at x i = ucast (drop_bit (8 * i) x)"

definition pack_le :: "u64 \<Rightarrow> byte list" where
  "pack_le x = map (byte_at x) [0..<8]"

fun unpack_le :: "byte list \<Rightarrow> u64" where
  "unpack_le [] = 0"
| "unpack_le (b # bs) = ucast b OR push_bit 8 (unpack_le bs)"

text \<open>
  Modelled from the spec: \<open>patchguard.bswap\<close>, imported by timers.py and not part
  of the source file. The spec calls it \<open>byteswap64\<close>: it reverses all 8 bytes of
  the value (a full 64-bit endianness flip).
\<close>

definition bswap :: "u64 \<Rightarrow> u64" where
  "bswap x = unpack_le (rev (pack_le x))"

subsection \<open>Objects, timers, modules\<close>

text \<open>
  A parsed object knows its type name and its parent (\<open>obj_name\<close>,
  \<open>obj_parent\<close>). \<open>obj_id\<close> is the identity of the Python object, the key under
  which \<open>newattr\<close> stores attributes; \<open>obj_truth\<close> is the truth value Python
  gives the object in \<open>while parent and ...\<close> and \<open>if not parent\<close>.
\<close>

datatype vobj =
  VObj (obj_name: string) (obj_id: nat) (obj_truth: bool) (obj_parent: "vobj option")

text \<open>
  A \<open>_KTIMER\<close> view: \<open>m_Dpc\<close> is the stored member \<open>self.m("Dpc")\<close>,
  \<open>self_obj_parent\<close> is \<open>self.obj_parent\<close>.
\<close>

record ktimer =
  obj_offset :: u64
  self_obj_parent :: "vobj option"
  Header_Type :: int
  Header_SignalState :: int
  DueTime_HighPart :: "32 word"
  DueTime_LowPart :: "32 word"
  Period :: int
  m_Dpc :: u64

text \<open>
  A \<open>_LDR_DATA_TABLE_ENTRY\<close>; \<open>BaseDllName\<close> is \<open>None\<close> when the name object is
  false in Python (\<open>module.BaseDllName or ''\<close>).
\<close>

record ldr_module =
  DllBase :: int
  SizeOfImage :: int
  BaseDllName :: "string option"
  getprocaddress :: "string \<Rightarrow> int option"

text \<open>
  The address space with its profile metadata, and the services of the framework
  that the plugin calls on it. \<open>md_*\<close> are the entries of \<open>profile.metadata\<close>
  (\<open>None\<close> when the key is absent). \<open>zread\<close> reads bytes; \<open>Object_address\<close> is
  \<open>obj.Object('address', offset, vm)\<close>, the pointer-sized value stored at the
  offset (\<open>None\<close> for a \<open>NoneObject\<close>); \<open>VolatilityKDBG_v\<close> is the result of
  the scan \<open>win8_kdbg.VolatilityKDBG("", offset = 0, vm = vm).v()\<close>, \<open>None\<close>
  when it is false, else the attributes \<open>(wait_never, wait_always)\<close> of the
  structure found; \<open>KDPC_DeferredRoutine\<close> reads the \<open>DeferredRoutine\<close> member of
  the \<open>_KDPC\<close> at an address (\<open>None\<close> when unreadable). \<open>list_of_type\<close> gives
  the timers linked on the list whose head \<open>_LIST_ENTRY\<close> is at an address
  (\<open>list_of_type("_KTIMER", "TimerListEntry")\<close>), \<open>sizeof_LIST_ENTRY\<close> is the size
  of that structure in the profile, and \<open>kpcr_timers\<close> are the timers of the
  per-processor timer tables of \<open>tasks.get_kdbg(addr_space).kpcrs()\<close>.
\<close>

record addr_space =
  md_major :: "int option"
  md_minor :: "int option"
  md_build :: "int option"
  md_memory_model :: "string option"
  zread :: "int \<Rightarrow> nat \<Rightarrow> byte list"
  Object_address :: "int \<Rightarrow> int option"
  VolatilityKDBG_v :: "(u64 \<times> u64) option"
  KDPC_DeferredRoutine :: "u64 \<Rightarrow> int option"
  address_mask :: "int \<Rightarrow> int"
  list_of_type :: "int \<Rightarrow> ktimer list"
  sizeof_LIST_ENTRY :: int
  kpcr_timers :: "ktimer list"

record config =
  LISTHEAD :: "int option"

text \<open>
  What one run mutates: the attributes added to objects with \<open>newattr\<close>, by
  object identity, and the number of times the KDBG scan of line 75 has run.
\<close>

record run_state =
  attrs :: "nat \<Rightarrow> string \<Rightarrow> u64 option"
  kdbg_scans :: nat

definition hasattr :: "run_state \<Rightarrow> vobj \<Rightarrow> string \<Rightarrow> bool" where
  "hasattr st p a = (attrs st (obj_id p) a \<noteq> None)"

definition newattr :: "run_state \<Rightarrow> vobj \<Rightarrow> string \<Rightarrow> u64 \<Rightarrow> run_state" where
  "newattr st p a v = st\<lparr>attrs := (attrs st)(obj_id p := (attrs st (obj_id p))(a \<mapsto> v))\<rparr>"

text \<open>Reading an attribute; used only after \<open>hasattr\<close> holds or \<open>newattr\<close> ran.\<close>

definition getattr :: "run_state \<Rightarrow> vobj \<Rightarrow> string \<Rightarrow> u64" where
  "getattr st p a = the (attrs st (obj_id p) a)"

section \<open>\<open>_KTIMER.Dpc\<close>\<close>

datatype dpc_result = Member u64 | Object_KDPC u64 | NoneObject string

text \<open>
  Lines 62-64: \<open>parent = self.obj_parent; while parent and parent.obj_name !=
  "_KDDEBUGGER_DATA64": parent = parent.obj_parent\<close>.
\<close>

fun climb :: "vobj option \<Rightarrow> vobj option" where
  "climb None = None"
| "climb (Some (VObj n i t par)) =
     (if t \<and> n \<noteq> ''_KDDEBUGGER_DATA64'' then climb par else Some (VObj n i t par))"

text \<open>
  Lines 85-87: \<open>decoded = patchguard.bswap(patchguard.rol(dpc ^ parent.wait_never,
  parent.wait_never & 0xFF) ^ self.obj_offset) ^ parent.wait_always\<close>.
\<close>

definition decode_value :: "u64 \<Rightarrow> u64 \<Rightarrow> u64 \<Rightarrow> u64 \<Rightarrow> u64" where
  "decode_value dpc offset never always =
     bswap (rol (dpc XOR never) (unat (never AND 0xFF)) XOR offset) XOR always"

text \<open>Lines 83-89, with the attributes of \<open>parent\<close>.\<close>

definition decode :: "run_state \<Rightarrow> vobj \<Rightarrow> ktimer \<Rightarrow> dpc_result" where
  "decode st parent self =
     (let dpc = m_Dpc self;
          decoded = decode_value dpc (obj_offset self)
                      (getattr st parent ''wait_never'') (getattr st parent ''wait_always'')
      in Object_KDPC decoded)"

text \<open>The property \<open>Dpc\<close>, lines 52-89, returning the state it leaves.\<close>

definition Dpc :: "addr_space \<Rightarrow> run_state \<Rightarrow> ktimer \<Rightarrow> run_state \<times> dpc_result" where
  "Dpc vm st self =
     (let bits = md_memory_model vm in
      if bits = Some ''32bit'' then (st, Member (m_Dpc self))
      else
        (case climb (self_obj_parent self) of
           None \<Rightarrow> (st, NoneObject ''Parent is not a KDBG structure'')
         | Some parent \<Rightarrow>
             if \<not> obj_truth parent then (st, NoneObject ''Parent is not a KDBG structure'')
             else if \<not> hasattr st parent ''wait_always'' \<or> \<not> hasattr st parent ''wait_never''
             then
               (let st1 = st\<lparr>kdbg_scans := Suc (kdbg_scans st)\<rparr> in
                case VolatilityKDBG_v vm of
                  None \<Rightarrow> (st1, NoneObject ''Cannot find KDBG structure'')
                | Some kdbg \<Rightarrow>
                    (let st2 = newattr st1 parent ''wait_never'' (fst kdbg);
                         st3 = newattr st2 parent ''wait_always'' (snd kdbg)
                     in (st3, decode st3 parent self)))
             else (st, decode st parent self)))"

text \<open>
  A sequence of reads of the property during one run (line 276 reads it once per
  timer, lines 304 and 336 once more), threading the state.
\<close>

fun Dpc_reads :: "addr_space \<Rightarrow> run_state \<Rightarrow> ktimer list \<Rightarrow> run_state \<times> dpc_result list" where
  "Dpc_reads vm st [] = (st, [])"
| "Dpc_reads vm st (t # ts) =
     (let (st1, d) = Dpc vm st t; (st2, ds) = Dpc_reads vm st1 ts in (st2, d # ds))"

text \<open>
  The inverse transform as the specification lists its steps: XOR always,
  byteswap, inverse-rotate, XOR offset, XOR never.
\<close>

definition encode_as_listed :: "u64 \<Rightarrow> u64 \<Rightarrow> u64 \<Rightarrow> u64 \<Rightarrow> u64" where
  "encode_as_listed d offset never always =
     (word_rotr (unat (never AND 0xFF) mod 64) (bswap (d XOR always)) XOR offset) XOR never"

text \<open>
  The algebraic inverse of the decoder: XOR always, byteswap, XOR offset,
  inverse-rotate, XOR never.
\<close>

definition encode :: "u64 \<Rightarrow> u64 \<Rightarrow> u64 \<Rightarrow> u64 \<Rightarrow> u64" where
  "encode d offset never always =
     word_rotr (unat (never AND 0xFF) mod 64) (bswap (d XOR always) XOR offset) XOR never"

section \<open>Locating \<open>KiTimerTableListHead\<close>\<close>

text \<open>Python's \<open>data.find(sig)\<close>: the first offset of \<open>sig\<close> in \<open>data\<close>, \<open>None\<close> for -1.\<close>

fun str_find :: "byte list \<Rightarrow> byte list \<Rightarrow> nat option" where
  "str_find [] sig = (if sig = [] then Some 0 else None)"
| "str_find (d # ds) sig =
     (if take (length sig) (d # ds) = sig then Some 0 else map_option Suc (str_find ds sig))"

text \<open>
  \<open>struct.unpack("I", ptr)[0]\<close>: four bytes read as an unsigned integer, in the
  byte order of the analysis host (little-endian on x86); another length raises
  \<open>struct.error\<close>.
\<close>

definition struct_unpack_I :: "byte list \<Rightarrow> py_error + int" where
  "struct_unpack_I bs =
     (case bs of
        [b0, b1, b2, b3] \<Rightarrow>
          Inr (uint b0 + 256 * uint b1 + 65536 * uint b2 + 16777216 * uint b3)
      | _ \<Rightarrow> Inl StructError)"

text \<open>Lines 122-147. The result is the \<open>address\<close> object at the offset after the signature.\<close>

definition find_list_head :: "addr_space \<Rightarrow> ldr_module \<Rightarrow> string \<Rightarrow> byte list \<Rightarrow> int option" where
  "find_list_head vm nt_mod func sig =
     (case getprocaddress nt_mod func of
        None \<Rightarrow> None
      | Some func_rva \<Rightarrow>
          (let func_addr = func_rva + DllBase nt_mod;
               data = zread vm func_addr 300
           in case str_find data sig of
                None \<Rightarrow> None
              | Some n \<Rightarrow> Object_address vm (func_addr + int n + int (length sig))))"

text \<open>Lines 149-168.\<close>

definition find_list_head_offset ::
  "addr_space \<Rightarrow> ldr_module \<Rightarrow> string \<Rightarrow> byte list \<Rightarrow> py_error + int option" where
  "find_list_head_offset vm nt_mod func sig =
     (case getprocaddress nt_mod func of
        None \<Rightarrow> Inr None
      | Some func_rva \<Rightarrow>
          (let func_addr = func_rva + DllBase nt_mod;
               data = zread vm func_addr 300
           in case str_find data sig of
                None \<Rightarrow> Inr None
              | Some n \<Rightarrow>
                  (case struct_unpack_I (zread vm (func_addr + int n + int (length sig)) 4) of
                     Inl e \<Rightarrow> Inl e
                   | Inr ptr \<Rightarrow> Inr (Some (ptr + func_addr + int n + int (length sig) + 4)))))"

text \<open>
  The displacement that four bytes encode when read as a signed little-endian
  32-bit integer, as the specification of the pointer-relative mode has it.
\<close>

definition signed_displacement :: "byte list \<Rightarrow> int" where
  "signed_displacement bs =
     (case struct_unpack_I bs of Inr u \<Rightarrow> sint (word_of_int u :: 32 word) | Inl _ \<Rightarrow> 0)"

text \<open>Python's truth value of an address or of \<open>None\<close>.\<close>

definition py_true :: "int option \<Rightarrow> bool" where
  "py_true k = (case k of None \<Rightarrow> False | Some a \<Rightarrow> a \<noteq> 0)"

section \<open>\<open>Timers.calculate\<close>\<close>

datatype branch = BranchA | BranchB | BranchC

definition version_of :: "addr_space \<Rightarrow> int \<times> int" where
  "version_of vm =
     (case md_major vm of None \<Rightarrow> 0 | Some v \<Rightarrow> v,
      case md_minor vm of None \<Rightarrow> 0 | Some v \<Rightarrow> v)"

definition build_of :: "addr_space \<Rightarrow> int" where
  "build_of vm = (case md_build vm of None \<Rightarrow> 0 | Some v \<Rightarrow> v)"

text \<open>Python compares tuples lexicographically: \<open>version >= (6, 1)\<close>.\<close>

definition tuple_ge :: "int \<times> int \<Rightarrow> int \<times> int \<Rightarrow> bool" where
  "tuple_ge a b = (fst a > fst b \<or> (fst a = fst b \<and> snd a \<ge> snd b))"

text \<open>The conditions of the \<open>if\<close>/\<open>elif\<close> chain of lines 189, 214 and 251, in order.\<close>

definition select_branch :: "int \<times> int \<Rightarrow> int \<Rightarrow> branch option" where
  "select_branch version build =
     (if version = (5, 1) \<or> (version = (5, 2) \<and> build = 3789) then Some BranchA
      else if version = (5, 2) \<or> version = (6, 0) then Some BranchB
      else if tuple_ge version (6, 1) then Some BranchC
      else None)"

definition TimerNotificationObject :: int where
  "TimerNotificationObject = 8"

definition TimerSynchronizationObject :: int where
  "TimerSynchronizationObject = 9"

definition valid_types :: "int list" where
  "valid_types = [TimerNotificationObject, TimerSynchronizationObject]"

text \<open>Lines 223-228: the candidates \<open>(relative, function, signature)\<close> by memory model.\<close>

definition sigData :: "addr_space \<Rightarrow> (bool \<times> string \<times> byte list) list" where
  "sigData vm =
     (if md_memory_model vm = Some ''32bit''
      then [(False, ''KeCancelTimer'', [0xC1, 0xE7, 0x04, 0x81, 0xC7]),
            (True, ''KeUpdateSystemTime'',
             [0x48, 0xB9, 0x00, 0x00, 0x00, 0x00, 0x80, 0xF7, 0xFF, 0xFF, 0x4C, 0x8D, 0x1D])]
      else [(True, ''KeCancelTimer'', [0x48, 0x8D, 0x4C, 0x6D, 0x00, 0x48, 0x8D, 0x05]),
            (True, ''KeUpdateSystemTime'',
             [0x48, 0xB9, 0x00, 0x00, 0x00, 0x00, 0x80, 0xF7, 0xFF, 0xFF, 0x4C, 0x8D, 0x1D])])"

text \<open>
  Lines 229-235: the loop over the candidates, leaving the last value assigned
  when none is true. \<open>modlist[0]\<close> raises \<open>IndexError\<close> on an empty list.
\<close>

fun try_sigs ::
  "addr_space \<Rightarrow> ldr_module list \<Rightarrow> int option \<Rightarrow> (bool \<times> string \<times> byte list) list
   \<Rightarrow> py_error + int option" where
  "try_sigs vm modlist last_value [] = Inr last_value"
| "try_sigs vm modlist last_value (sig # sigs) =
     (case modlist of
        [] \<Rightarrow> Inl IndexError
      | m0 # _ \<Rightarrow>
          (case (if fst sig then find_list_head_offset vm m0 (fst (snd sig)) (snd (snd sig))
                 else Inr (find_list_head vm m0 (fst (snd sig)) (snd (snd sig)))) of
             Inl e \<Rightarrow> Inl e
           | Inr k \<Rightarrow> if py_true k then Inr k else try_sigs vm modlist k sigs))"

text \<open>Lines 195-200 and 219-235: the table address of branch A and of branch B.\<close>

definition list_head_A :: "config \<Rightarrow> addr_space \<Rightarrow> ldr_module list \<Rightarrow> py_error + int option" where
  "list_head_A cfg vm modlist =
     (if py_true (LISTHEAD cfg) then Inr (LISTHEAD cfg)
      else case modlist of
             [] \<Rightarrow> Inl IndexError
           | m0 # _ \<Rightarrow>
               Inr (find_list_head vm m0 ''KeUpdateSystemTime''
                      [0x25, 0xFF, 0x00, 0x00, 0x00, 0x8D, 0x0C, 0xC5]))"

definition list_head_B :: "config \<Rightarrow> addr_space \<Rightarrow> ldr_module list \<Rightarrow> py_error + int option" where
  "list_head_B cfg vm modlist =
     (if py_true (LISTHEAD cfg) then Inr (LISTHEAD cfg)
      else try_sigs vm modlist None (sigData vm))"

text \<open>
  Lines 37-46: the two layouts of \<open>_KTIMER_TABLE_ENTRY\<close>, as the size of the
  structure and the offsets of its members \<open>Entry\<close> and \<open>Time\<close>.
\<close>

record ktimer_table_entry =
  tbl_size :: int
  tbl_Entry :: int
  tbl_Time :: int

definition timer_types_64 :: ktimer_table_entry where
  "timer_types_64 = \<lparr>tbl_size = 0x18, tbl_Entry = 0x0, tbl_Time = 0x10\<rparr>"

definition timer_types_32 :: ktimer_table_entry where
  "timer_types_32 = \<lparr>tbl_size = 0x10, tbl_Entry = 0x0, tbl_Time = 0x8\<rparr>"

text \<open>
  Lines 99-105: the layout that \<open>TimerVTypes\<close> installs for versions below (6, 1),
  the only ones for which branch B runs; an absent \<open>memory_model\<close> counts as
  \<open>32bit\<close> there.
\<close>

definition KTIMER_TABLE_ENTRY_type :: "addr_space \<Rightarrow> ktimer_table_entry" where
  "KTIMER_TABLE_ENTRY_type vm =
     (if (case md_memory_model vm of None \<Rightarrow> ''32bit'' | Some m \<Rightarrow> m) = ''32bit''
      then timer_types_32 else timer_types_64)"

text \<open>
  Lines 205-212: the array of 256 \<open>_LIST_ENTRY\<close> at the table address, and the
  timers of each list in turn.
\<close>

definition list_heads_timers :: "addr_space \<Rightarrow> int \<Rightarrow> ktimer list" where
  "list_heads_timers vm a =
     concat (map (\<lambda>i. list_of_type vm (a + int i * sizeof_LIST_ENTRY vm)) [0..<256])"

text \<open>
  Lines 240-249: the array of 512 \<open>_KTIMER_TABLE_ENTRY\<close> at the table address, and
  the timers of the list at the member \<open>Entry\<close> of each.
\<close>

definition table_entries_timers :: "addr_space \<Rightarrow> int \<Rightarrow> ktimer list" where
  "table_entries_timers vm a =
     concat (map (\<lambda>i. list_of_type vm
                          (a + int i * tbl_size (KTIMER_TABLE_ENTRY_type vm)
                             + tbl_Entry (KTIMER_TABLE_ENTRY_type vm)))
                 [0..<512])"

text \<open>Lines 192-212: branch A, with the warning of line 203.\<close>

definition branch_A ::
  "config \<Rightarrow> addr_space \<Rightarrow> ldr_module list \<Rightarrow> py_error + (string list \<times> ktimer list)" where
  "branch_A cfg vm modlist =
     (case list_head_A cfg vm modlist of
        Inl e \<Rightarrow> Inl e
      | Inr k \<Rightarrow>
          (case k of
             Some a \<Rightarrow>
               if a \<noteq> 0 then Inr ([], list_heads_timers vm a)
               else Inr ([''Cannot find KiTimerTableListHead''], [])
           | None \<Rightarrow> Inr ([''Cannot find KiTimerTableListHead''], [])))"

text \<open>Lines 216-249: branch B, with the warning of line 238.\<close>

definition branch_B ::
  "config \<Rightarrow> addr_space \<Rightarrow> ldr_module list \<Rightarrow> py_error + (string list \<times> ktimer list)" where
  "branch_B cfg vm modlist =
     (case list_head_B cfg vm modlist of
        Inl e \<Rightarrow> Inl e
      | Inr k \<Rightarrow>
          (case k of
             Some a \<Rightarrow>
               if a \<noteq> 0 then Inr ([], table_entries_timers vm a)
               else Inr ([''Cannot find KiTimerTableListHead''], [])
           | None \<Rightarrow> Inr ([''Cannot find KiTimerTableListHead''], [])))"

text \<open>Lines 253-259: branch C, the timers of the per-processor tables.\<close>

definition branch_C :: "addr_space \<Rightarrow> py_error + (string list \<times> ktimer list)" where
  "branch_C vm = Inr ([], kpcr_timers vm)"

text \<open>
  Lines 189-259: the timers collected, with the warnings printed. A version that
  matches no branch leaves the list empty.
\<close>

definition collect_timers ::
  "config \<Rightarrow> addr_space \<Rightarrow> ldr_module list \<Rightarrow> py_error + (string list \<times> ktimer list)" where
  "collect_timers cfg vm modlist =
     (case select_branch (version_of vm) (build_of vm) of
        Some BranchA \<Rightarrow> branch_A cfg vm modlist
      | Some BranchB \<Rightarrow> branch_B cfg vm modlist
      | Some BranchC \<Rightarrow> branch_C vm
      | None \<Rightarrow> Inr ([], []))"

text \<open>
  \<open>timer.Dpc.DeferredRoutine\<close>: the member of the \<open>_KDPC\<close> the property gives;
  a \<open>NoneObject\<close> has no readable member.
\<close>

definition DeferredRoutine :: "addr_space \<Rightarrow> dpc_result \<Rightarrow> int option" where
  "DeferredRoutine vm d =
     (case d of
        Member p \<Rightarrow> KDPC_DeferredRoutine vm p
      | Object_KDPC a \<Rightarrow> KDPC_DeferredRoutine vm a
      | NoneObject _ \<Rightarrow> None)"

text \<open>
  Modelled from the spec: \<open>tasks.find_module\<close> of the framework, called at line 276
  and not part of the source file. It finds the module whose range
  \<open>[base, base + size)\<close> contains the address, through the greatest sorted base
  not above it and a range check; the result is unknown if no module contains
  the address or if the address itself is unreadable or null.
\<close>

definition find_module ::
  "(int \<Rightarrow> ldr_module option) \<Rightarrow> int list \<Rightarrow> int option \<Rightarrow> ldr_module option" where
  "find_module mods mod_addrs addr =
     (case addr of
        None \<Rightarrow> None
      | Some a \<Rightarrow>
          (case filter (\<lambda>b. b \<le> a) mod_addrs of
             [] \<Rightarrow> None
           | b # bs \<Rightarrow>
               (case mods (last (b # bs)) of
                  None \<Rightarrow> None
                | Some m \<Rightarrow>
                    if DllBase m \<le> a \<and> a < DllBase m + SizeOfImage m then Some m else None)))"

text \<open>Lines 261-278: the type check and the attribution, for each collected timer.\<close>

fun attribute ::
  "addr_space \<Rightarrow> (int \<Rightarrow> ldr_module option) \<Rightarrow> int list \<Rightarrow> run_state \<Rightarrow> ktimer list
   \<Rightarrow> run_state \<times> (ktimer \<times> ldr_module option) list" where
  "attribute vm mods mod_addrs st [] = (st, [])"
| "attribute vm mods mod_addrs st (timer # timers) =
     (if Header_Type timer \<notin> set valid_types then attribute vm mods mod_addrs st timers
      else
        (let (st1, dpc) = Dpc vm st timer;
             module = find_module mods mod_addrs
                        (map_option (address_mask vm) (DeferredRoutine vm dpc));
             (st2, out) = attribute vm mods mod_addrs st1 timers
         in (st2, (timer, module) # out)))"

record calc_result =
  warnings :: "string list"
  state_after :: run_state
  yielded :: "(ktimer \<times> ldr_module option) list"

text \<open>
  Lines 170-278. The generator is run to its end: the pairs it yields are a list.
  \<open>mods\<close> is the dictionary of line 178 (a later module with the same masked
  base replaces an earlier one), \<open>mod_addrs\<close> its sorted keys.
\<close>

definition calculate ::
  "config \<Rightarrow> addr_space \<Rightarrow> ldr_module list \<Rightarrow> run_state \<Rightarrow> py_error + calc_result" where
  "calculate cfg vm modlist st =
     (let mods = map_of (rev (map (\<lambda>m. (address_mask vm (DllBase m), m)) modlist));
          mod_addrs = sort (remdups (map (\<lambda>m. address_mask vm (DllBase m)) modlist))
      in case collect_timers cfg vm modlist of
           Inl e \<Rightarrow> Inl e
         | Inr (ws, timers) \<Rightarrow>
             (let (st1, out) = attribute vm mods mod_addrs st timers
              in Inr \<lparr>warnings = ws, state_after = st1, yielded = out\<rparr>))"

section \<open>Output: \<open>generator\<close> and \<open>render_text\<close>\<close>

definition hex_char :: "nat \<Rightarrow> char" where
  "hex_char d = ''0123456789abcdef'' ! d"

fun hex_digits :: "nat \<Rightarrow> string" where
  "hex_digits n = (if n < 16 then [hex_char n] else hex_digits (n div 16) @ [hex_char (n mod 16)])"

declare hex_digits.simps [simp del]

text \<open>
  Python's \<open>"{0:#010x}".format(n)\<close> for \<open>n \<ge> 0\<close>: the prefix \<open>0x\<close>, then the
  hexadecimal digits padded with zeros to a total width of ten.
\<close>

definition format_010x :: "nat \<Rightarrow> string" where
  "format_010x n = ''0x'' @ replicate (8 - length (hex_digits n)) CHR ''0'' @ hex_digits n"

record row =
  row_offset :: u64
  row_due_time :: string
  row_period :: int
  row_signaled :: string
  row_routine :: "int option"
  row_module :: string

text \<open>Lines 289-304.\<close>

fun generator ::
  "addr_space \<Rightarrow> run_state \<Rightarrow> (ktimer \<times> ldr_module option) list \<Rightarrow> run_state \<times> row list" where
  "generator vm st [] = (st, [])"
| "generator vm st ((timer, module) # data) =
     (let signaled = (if Header_SignalState timer \<noteq> 0 then ''Yes'' else ''-'');
          module_name =
            (case module of
               Some m \<Rightarrow> (case BaseDllName m of Some s \<Rightarrow> s | None \<Rightarrow> [])
             | None \<Rightarrow> ''UNKNOWN'');
          due_time = format_010x (unat (DueTime_HighPart timer)) @ '':'' @
                     format_010x (unat (DueTime_LowPart timer));
          (st1, dpc) = Dpc vm st timer;
          (st2, rest) = generator vm st1 data
      in (st2,
          \<lparr>row_offset = obj_offset timer, row_due_time = due_time, row_period = Period timer,
           row_signaled = signaled, row_routine = DeferredRoutine vm dpc,
           row_module = module_name\<rparr> # rest))"

text \<open>Lines 306-337: the header of the table, then one \<open>table_row\<close> per pair.\<close>

definition table_header :: "(string \<times> string) list" where
  "table_header =
     [(''Offset(V)'', ''[addrpad]''), (''DueTime'', ''24''), (''Period(ms)'', ''10''),
      (''Signaled'', ''10''), (''Routine'', ''[addrpad]''), (''Module'', [])]"

fun table_rows ::
  "addr_space \<Rightarrow> run_state \<Rightarrow> (ktimer \<times> ldr_module option) list \<Rightarrow> run_state \<times> row list" where
  "table_rows vm st [] = (st, [])"
| "table_rows vm st ((timer, module) # data) =
     (let signaled = (if Header_SignalState timer \<noteq> 0 then ''Yes'' else ''-'');
          module_name =
            (case module of
               Some m \<Rightarrow> (case BaseDllName m of Some s \<Rightarrow> s | None \<Rightarrow> [])
             | None \<Rightarrow> ''UNKNOWN'');
          due_time = format_010x (unat (DueTime_HighPart timer)) @ '':'' @
                     format_010x (unat (DueTime_LowPart timer));
          (st1, dpc) = Dpc vm st timer;
          (st2, rest) = table_rows vm st1 data
      in (st2,
          \<lparr>row_offset = obj_offset timer, row_due_time = due_time, row_period = Period timer,
           row_signaled = signaled, row_routine = DeferredRoutine vm dpc,
           row_module = module_name\<rparr> # rest))"

definition render_text ::
  "addr_space \<Rightarrow> run_state \<Rightarrow> (ktimer \<times> ldr_module option) list
   \<Rightarrow> run_state \<times> (string \<times> string) list \<times> row list" where
  "render_text vm st data = (let (st1, rs) = table_rows vm st data in (st1, table_header, rs))"

section \<open>Notions of the specification used to state the claims\<close>

text \<open>
  When a read of \<open>Dpc\<close> cannot resolve the callback: the target is not 32-bit and
  the parent chain ends without a true \<open>_KDDEBUGGER_DATA64\<close> object (lines 66-67),
  or the secrets are not cached on it and the scan finds nothing (lines 76-77).
\<close>

definition dpc_unresolvable :: "addr_space \<Rightarrow> run_state \<Rightarrow> ktimer \<Rightarrow> bool" where
  "dpc_unresolvable vm st t =
     (md_memory_model vm \<noteq> Some ''32bit'' \<and>
      (case climb (self_obj_parent t) of
         None \<Rightarrow> True
       | Some p \<Rightarrow>
           \<not> obj_truth p \<or>
           (VolatilityKDBG_v vm = None \<and>
            (\<not> hasattr st p ''wait_always'' \<or> \<not> hasattr st p ''wait_never''))))"

text \<open>
  A 32-bit value as eight hexadecimal digits, most significant first, with
  leading zeros.
\<close>

definition hex8 :: "32 word \<Rightarrow> string" where
  "hex8 w = map (\<lambda>i. hex_char (unat (drop_bit (4 * i) w AND 0xF))) [7, 6, 5, 4, 3, 2, 1, 0]"

section \<open>Sample inputs\<close>

text \<open>
  A debugger block, a processor control region below it and a timer below that;
  an address space of a 64-bit Windows 7 whose per-processor tables hold three
  timers of header types 7, 8 and 9; an empty run state.
\<close>

definition kdbg0 :: vobj where
  "kdbg0 = VObj ''_KDDEBUGGER_DATA64'' 0 True None"

definition kpcr0 :: vobj where
  "kpcr0 = VObj ''_KPCR'' 1 True (Some kdbg0)"

definition timer0 :: ktimer where
  "timer0 = \<lparr>obj_offset = 0xFFFFFA8001234560, self_obj_parent = Some kpcr0, Header_Type = 9,
     Header_SignalState = 1, DueTime_HighPart = 1, DueTime_LowPart = 0x80000000, Period = 5000,
     m_Dpc = 0x1122334455667788\<rparr>"

definition vm0 :: addr_space where
  "vm0 = \<lparr>md_major = Some 6, md_minor = Some 1, md_build = Some 7601,
     md_memory_model = Some ''64bit'', zread = (\<lambda>a n. replicate n 0),
     Object_address = (\<lambda>a. None),
     VolatilityKDBG_v = Some (0x0123456789ABCDEF, 0xFEDCBA9876543210),
     KDPC_DeferredRoutine = (\<lambda>a. None), address_mask = (\<lambda>a. a),
     list_of_type = (\<lambda>a. []), sizeof_LIST_ENTRY = 16,
     kpcr_timers = [timer0\<lparr>Header_Type := 7\<rparr>, timer0\<lparr>Header_Type := 8\<rparr>, timer0]\<rparr>"

definition st0 :: run_state where
  "st0 = \<lparr>attrs = (\<lambda>i a. None), kdbg_scans = 0\<rparr>"

definition cfg0 :: config where
  "cfg0 = \<lparr>LISTHEAD = None\<rparr>"

text \<open>The same address space with the version (5, 0), which no branch matches.\<close>

definition vm50 :: addr_space where
  "vm50 = vm0\<lparr>md_major := Some 5, md_minor := Some 0\<rparr>"

text \<open>
  A kernel module that exports \<open>KeCancelTimer\<close>, whose code holds the 64-bit
  signature of line 226 at offset 2, followed by the displacement bytes
  \<open>F0 FF FF FF\<close> (-16 as a signed 32-bit integer).
\<close>

definition nt0 :: ldr_module where
  "nt0 = \<lparr>DllBase = 0x140000000, SizeOfImage = 0x800000, BaseDllName = Some ''ntoskrnl.exe'',
     getprocaddress = (\<lambda>f. if f = ''KeCancelTimer'' then Some 0x1000 else None)\<rparr>"

definition code0 :: "byte list" where
  "code0 = [0x90, 0x90, 0x48, 0x8D, 0x4C, 0x6D, 0x00, 0x48, 0x8D, 0x05, 0xF0, 0xFF, 0xFF, 0xFF]"

definition vm_rel :: addr_space where
  "vm_rel = vm0\<lparr>zread := (\<lambda>a n. map (\<lambda>i. let off = a + int i - 0x140001000
                                            in if 0 \<le> off \<and> off < 14 then code0 ! nat off else 0)
                                   [0..<n])\<rparr>"

text \<open>A timer without a parent, and a module whose name is the word UNKNOWN.\<close>

definition orphan_timer :: ktimer where
  "orphan_timer = timer0\<lparr>self_obj_parent := None, Header_Type := 8\<rparr>"

definition unknown_sys :: ldr_module where
  "unknown_sys = \<lparr>DllBase = 0xFFFFF88001000000, SizeOfImage = 0x10000,
     BaseDllName = Some ''UNKNOWN'', getprocaddress = (\<lambda>f. None)\<rparr>"

text \<open>
  A 32-bit Windows XP whose only timer hangs off the last of the 256 list heads
  (8 bytes each) of a table at \<open>0x80545000\<close>, and the same image with the timer
  one slot further, outside the table; a 64-bit Vista whose only timer hangs off
  the last of the 512 table entries (24 bytes each), and one slot further.
\<close>

definition cfg_listhead :: config where
  "cfg_listhead = \<lparr>LISTHEAD = Some 0x80545000\<rparr>"

definition vm_xp :: "int \<Rightarrow> addr_space" where
  "vm_xp slot = vm0\<lparr>md_major := Some 5, md_minor := Some 1, md_build := Some 2600,
     md_memory_model := Some ''32bit'', sizeof_LIST_ENTRY := 8,
     list_of_type := (\<lambda>a. if a = 0x80545000 + slot * 8 then [timer0] else [])\<rparr>"

definition vm_vista :: "int \<Rightarrow> addr_space" where
  "vm_vista slot = vm0\<lparr>md_major := Some 6, md_minor := Some 0, md_build := Some 6002,
     list_of_type := (\<lambda>a. if a = 0x80545000 + slot * 0x18 then [timer0] else [])\<rparr>"

section \<open>Auxiliary lemmas\<close>

subsection \<open>Byte swap\<close>

lemma bit_unpack_le:
  "bit (unpack_le bs) n \<longleftrightarrow> n < 64 \<and> n div 8 < length bs \<and> bit (bs ! (n div 8)) (n mod 8)"
proof (induction bs arbitrary: n)
  case Nil
  show ?case by simp
next
  case (Cons b bs)
  show ?case
  proof (cases "n < 8")
    case True
    then show ?thesis by (simp add: bit_or_iff bit_ucast_iff bit_push_bit_iff)
  next
    case False
    then have "n div 8 = Suc ((n - 8) div 8)" "n mod 8 = (n - 8) mod 8"
      by (simp_all add: le_div_geq le_mod_geq)
    with False show ?thesis using Cons.IH[of "n - 8"]
      apply (simp add: bit_or_iff bit_ucast_iff bit_push_bit_iff)
      by (auto dest: bit_imp_le_length)
  qed
qed

lemma bit_byte_at: "bit (byte_at x i) k \<longleftrightarrow> k < 8 \<and> bit x (8 * i + k)"
  by (auto simp: byte_at_def bit_ucast_iff bit_drop_bit_eq dest: bit_imp_le_length)

lemma length_pack_le: "length (pack_le x) = 8"
  by (simp add: pack_le_def)

lemma nth_rev_pack_le: "i < 8 \<Longrightarrow> rev (pack_le x) ! i = byte_at x (7 - i)"
  by (simp add: rev_nth length_pack_le) (simp add: pack_le_def)

lemma bit_bswap: "bit (bswap x) n \<longleftrightarrow> n < 64 \<and> bit x (8 * (7 - n div 8) + n mod 8)"
proof (cases "n < 64")
  case True
  then have "n div 8 < 8" by simp
  then show ?thesis using True
    by (simp add: bswap_def bit_unpack_le length_pack_le nth_rev_pack_le bit_byte_at)
next
  case False
  then show ?thesis by (simp add: bswap_def bit_unpack_le)
qed

lemma byte_at_bswap: "i < 8 \<Longrightarrow> byte_at (bswap x) i = byte_at x (7 - i)"
proof (rule bit_word_eqI)
  fix k assume i: "i < 8" and "k < LENGTH(8)"
  then have k: "k < 8" by simp
  from i k have "(8 * i + k) div 8 = i" "(8 * i + k) mod 8 = k" "8 * i + k < 64"
    by simp_all
  then show "bit (byte_at (bswap x) i) k = bit (byte_at x (7 - i)) k"
    by (simp add: bit_byte_at bit_bswap)
qed

lemma swap_index:
  "n < 64 \<Longrightarrow>
   8 * (7 - (8 * (7 - n div 8) + n mod 8) div 8) + (8 * (7 - n div 8) + n mod 8) mod 8 = (n::nat)"
  by simp

lemma swap_index_less: "n < 64 \<Longrightarrow> 8 * (7 - n div 8) + n mod 8 < (64::nat)"
  by simp

lemma bswap_bswap: "bswap (bswap x) = x"
proof (rule bit_word_eqI)
  fix n assume "n < LENGTH(64)"
  then have n: "n < 64" by simp
  show "bit (bswap (bswap x)) n = bit x n"
    using n swap_index[OF n] swap_index_less[OF n] by (simp add: bit_bswap)
qed

lemma low_byte: "unat (never AND (0xFF :: u64)) = unat never mod 256"
proof -
  have "never AND (0xFF :: u64) = take_bit 8 never"
    by (simp add: take_bit_eq_mask mask_eq_exp_minus_1)
  then have "unat (never AND (0xFF :: u64)) = take_bit 8 (unat never)"
    by (simp add: unsigned_take_bit_eq)
  then show ?thesis by (simp add: take_bit_eq_mod)
qed

subsection \<open>Reads of \<open>Dpc\<close> and the cached secrets\<close>

lemma getattr_new_never:
  "getattr (newattr (newattr st p ''wait_never'' n) p ''wait_always'' a) p ''wait_never'' = n"
  by (simp add: getattr_def newattr_def)

lemma getattr_new_always:
  "getattr (newattr (newattr st p ''wait_never'' n) p ''wait_always'' a) p ''wait_always'' = a"
  by (simp add: getattr_def newattr_def)

lemma Dpc_cached:
  assumes "md_memory_model vm \<noteq> Some ''32bit''"
    and "climb (self_obj_parent self) = Some parent" and "obj_truth parent"
    and "hasattr st parent ''wait_always''" and "hasattr st parent ''wait_never''"
  shows "Dpc vm st self = (st, decode st parent self)"
  using assms by (simp add: Dpc_def)

lemma Dpc_scan_ok:
  assumes "md_memory_model vm \<noteq> Some ''32bit''"
    and "climb (self_obj_parent self) = Some parent" and "obj_truth parent"
    and "\<not> hasattr st parent ''wait_always'' \<or> \<not> hasattr st parent ''wait_never''"
    and "VolatilityKDBG_v vm = Some (never, always)"
  shows "Dpc vm st self =
    (newattr (newattr (st\<lparr>kdbg_scans := Suc (kdbg_scans st)\<rparr>) parent ''wait_never'' never)
        parent ''wait_always'' always,
     Object_KDPC (decode_value (m_Dpc self) (obj_offset self) never always))"
  using assms by (auto simp: Dpc_def Let_def decode_def getattr_new_never getattr_new_always)

lemma Dpc_scan_fail:
  assumes "md_memory_model vm \<noteq> Some ''32bit''"
    and "climb (self_obj_parent self) = Some parent" and "obj_truth parent"
    and "\<not> hasattr st parent ''wait_always'' \<or> \<not> hasattr st parent ''wait_never''"
    and "VolatilityKDBG_v vm = None"
  shows "Dpc vm st self =
    (st\<lparr>kdbg_scans := Suc (kdbg_scans st)\<rparr>, NoneObject ''Cannot find KDBG structure'')"
  using assms by (auto simp: Dpc_def Let_def)

lemma Dpc_keeps_attrs:
  "attrs st k a \<noteq> None \<Longrightarrow> attrs (fst (Dpc vm st t)) k a \<noteq> None"
  by (auto simp: Dpc_def Let_def newattr_def split: option.splits)

lemma Dpc_no_scan_when_cached:
  assumes "\<forall>p. climb (self_obj_parent t) = Some p \<longrightarrow> obj_id p = k"
    and "attrs st k ''wait_never'' \<noteq> None" and "attrs st k ''wait_always'' \<noteq> None"
  shows "kdbg_scans (fst (Dpc vm st t)) = kdbg_scans st"
  using assms by (auto simp: Dpc_def Let_def hasattr_def split: option.splits)

lemma Dpc_reads_no_scan_when_cached:
  assumes "\<forall>t\<in>set ts. \<forall>p. climb (self_obj_parent t) = Some p \<longrightarrow> obj_id p = k"
    and "attrs st k ''wait_never'' \<noteq> None" and "attrs st k ''wait_always'' \<noteq> None"
  shows "kdbg_scans (fst (Dpc_reads vm st ts)) = kdbg_scans st"
  using assms
proof (induction ts arbitrary: st)
  case Nil
  then show ?case by simp
next
  case (Cons t ts)
  let ?st1 = "fst (Dpc vm st t)"
  have 1: "kdbg_scans ?st1 = kdbg_scans st"
    using Cons.prems by (intro Dpc_no_scan_when_cached[where k = k]) simp_all
  have "kdbg_scans (fst (Dpc_reads vm ?st1 ts)) = kdbg_scans ?st1"
    using Cons.prems by (intro Cons.IH) (simp_all add: Dpc_keeps_attrs)
  with 1 show ?case by (simp add: case_prod_unfold Let_def)
qed

lemma Dpc_scan_once:
  assumes "VolatilityKDBG_v vm \<noteq> None"
    and "\<forall>p. climb (self_obj_parent t) = Some p \<longrightarrow> obj_id p = k"
  shows "kdbg_scans (fst (Dpc vm st t)) = kdbg_scans st \<or>
         (kdbg_scans (fst (Dpc vm st t)) = Suc (kdbg_scans st) \<and>
          attrs (fst (Dpc vm st t)) k ''wait_never'' \<noteq> None \<and>
          attrs (fst (Dpc vm st t)) k ''wait_always'' \<noteq> None)"
  using assms by (auto simp: Dpc_def Let_def newattr_def split: option.splits)

lemma Dpc_reads_scan_once:
  assumes "VolatilityKDBG_v vm \<noteq> None"
    and "\<forall>t\<in>set ts. \<forall>p. climb (self_obj_parent t) = Some p \<longrightarrow> obj_id p = k"
  shows "kdbg_scans (fst (Dpc_reads vm st ts)) \<le> Suc (kdbg_scans st)"
  using assms
proof (induction ts arbitrary: st)
  case Nil
  then show ?case by simp
next
  case (Cons t ts)
  let ?st1 = "fst (Dpc vm st t)"
  have H: "\<forall>t\<in>set ts. \<forall>p. climb (self_obj_parent t) = Some p \<longrightarrow> obj_id p = k"
    using Cons.prems by simp
  have res: "kdbg_scans (fst (Dpc_reads vm st (t # ts))) = kdbg_scans (fst (Dpc_reads vm ?st1 ts))"
    by (simp add: case_prod_unfold Let_def)
  from Dpc_scan_once[of vm t k st] Cons.prems
  consider (same) "kdbg_scans ?st1 = kdbg_scans st"
    | (scanned) "kdbg_scans ?st1 = Suc (kdbg_scans st)"
        "attrs ?st1 k ''wait_never'' \<noteq> None" "attrs ?st1 k ''wait_always'' \<noteq> None"
    by auto
  then show ?case
  proof cases
    case same
    with Cons.IH[OF Cons.prems(1) H, of ?st1] res show ?thesis by simp
  next
    case scanned
    with Dpc_reads_no_scan_when_cached[OF H scanned(2,3), of vm] res show ?thesis by simp
  qed
qed

lemma Dpc_reads_scan_fail:
  assumes "md_memory_model vm \<noteq> Some ''32bit''" and "VolatilityKDBG_v vm = None"
    and "obj_truth kd"
    and "\<forall>t\<in>set ts. climb (self_obj_parent t) = Some kd"
    and "\<not> hasattr st kd ''wait_always'' \<or> \<not> hasattr st kd ''wait_never''"
  shows "Dpc_reads vm st ts =
    (st\<lparr>kdbg_scans := kdbg_scans st + length ts\<rparr>,
     replicate (length ts) (NoneObject ''Cannot find KDBG structure''))"
  using assms
proof (induction ts arbitrary: st)
  case Nil
  then show ?case by simp
next
  case (Cons t ts)
  let ?st1 = "st\<lparr>kdbg_scans := Suc (kdbg_scans st)\<rparr>"
  have d: "Dpc vm st t = (?st1, NoneObject ''Cannot find KDBG structure'')"
    using Cons.prems by (intro Dpc_scan_fail[where parent = kd]) simp_all
  have "\<not> hasattr ?st1 kd ''wait_always'' \<or> \<not> hasattr ?st1 kd ''wait_never''"
    using Cons.prems(5) by (simp add: hasattr_def)
  then have "Dpc_reads vm ?st1 ts =
    (?st1\<lparr>kdbg_scans := kdbg_scans ?st1 + length ts\<rparr>,
     replicate (length ts) (NoneObject ''Cannot find KDBG structure''))"
    using Cons.prems by (intro Cons.IH) simp_all
  with d show ?case by simp
qed

lemma Dpc_caches:
  assumes "md_memory_model vm \<noteq> Some ''32bit''" and "VolatilityKDBG_v vm = Some (never, always)"
    and "climb (self_obj_parent t) = Some kd" and "obj_truth kd"
  shows "hasattr (fst (Dpc vm st t)) kd ''wait_never'' \<and>
         hasattr (fst (Dpc vm st t)) kd ''wait_always''"
  using assms by (auto simp: Dpc_def Let_def hasattr_def newattr_def)

lemma Dpc_reads_keeps_attrs:
  "attrs st k a \<noteq> None \<Longrightarrow> attrs (fst (Dpc_reads vm st ts)) k a \<noteq> None"
proof (induction ts arbitrary: st)
  case Nil
  then show ?case by simp
next
  case (Cons t ts)
  from Cons.IH[OF Dpc_keeps_attrs[OF Cons.prems, of vm t]]
  show ?case by (simp add: case_prod_unfold Let_def)
qed

lemma Dpc_reads_caches:
  assumes "md_memory_model vm \<noteq> Some ''32bit''" and "VolatilityKDBG_v vm = Some (never, always)"
    and "\<forall>t\<in>set ts. climb (self_obj_parent t) = Some kd" and "obj_truth kd" and "ts \<noteq> []"
  shows "hasattr (fst (Dpc_reads vm st ts)) kd ''wait_never'' \<and>
         hasattr (fst (Dpc_reads vm st ts)) kd ''wait_always''"
proof (cases ts)
  case Nil
  with assms show ?thesis by simp
next
  case (Cons t ts')
  with assms have "climb (self_obj_parent t) = Some kd" by simp
  from Dpc_caches[OF assms(1,2) this assms(4), of st]
  have "attrs (fst (Dpc vm st t)) (obj_id kd) ''wait_never'' \<noteq> None"
       "attrs (fst (Dpc vm st t)) (obj_id kd) ''wait_always'' \<noteq> None"
    by (simp_all add: hasattr_def)
  then have "attrs (fst (Dpc_reads vm (fst (Dpc vm st t)) ts')) (obj_id kd) ''wait_never'' \<noteq> None"
       "attrs (fst (Dpc_reads vm (fst (Dpc vm st t)) ts')) (obj_id kd) ''wait_always'' \<noteq> None"
    by (simp_all add: Dpc_reads_keeps_attrs)
  with Cons show ?thesis by (simp add: hasattr_def case_prod_unfold Let_def)
qed

lemma climb_timer0: "climb (self_obj_parent timer0) = Some kdbg0"
  by (simp add: timer0_def kpcr0_def kdbg0_def)

subsection \<open>The loop of \<open>calculate\<close>\<close>

lemma valid_types_iff: "Header_Type t \<in> set valid_types \<longleftrightarrow> Header_Type t = 8 \<or> Header_Type t = 9"
  by (simp add: valid_types_def TimerNotificationObject_def TimerSynchronizationObject_def)

lemma attribute_filter:
  "map fst (snd (attribute vm mods addrs st timers)) =
   filter (\<lambda>t. Header_Type t = 8 \<or> Header_Type t = 9) timers"
proof (induction timers arbitrary: st)
  case Nil
  show ?case by simp
next
  case (Cons t ts)
  show ?case
  proof (cases "Header_Type t \<in> set valid_types")
    case True
    then have "Header_Type t = 8 \<or> Header_Type t = 9" by (simp add: valid_types_iff)
    with True Cons.IH show ?thesis by (simp add: case_prod_unfold Let_def)
  next
    case False
    then have "\<not> (Header_Type t = 8 \<or> Header_Type t = 9)" by (simp add: valid_types_iff)
    with False Cons.IH show ?thesis by simp
  qed
qed

lemma calculate_Inr:
  "collect_timers cfg vm modlist = Inr (ws, timers) \<Longrightarrow>
   calculate cfg vm modlist st =
     Inr \<lparr>warnings = ws,
          state_after = fst (attribute vm
             (map_of (rev (map (\<lambda>m. (address_mask vm (DllBase m), m)) modlist)))
             (sort (remdups (map (\<lambda>m. address_mask vm (DllBase m)) modlist))) st timers),
          yielded = snd (attribute vm
             (map_of (rev (map (\<lambda>m. (address_mask vm (DllBase m), m)) modlist)))
             (sort (remdups (map (\<lambda>m. address_mask vm (DllBase m)) modlist))) st timers)\<rparr>"
  by (simp add: calculate_def Let_def case_prod_unfold)

lemma collect_vm0: "collect_timers cfg0 vm0 [] =
   Inr ([], [timer0\<lparr>Header_Type := 7\<rparr>, timer0\<lparr>Header_Type := 8\<rparr>, timer0])"
  by (simp add: collect_timers_def branch_C_def select_branch_def tuple_ge_def version_of_def
      build_of_def vm0_def)

subsection \<open>Unresolved callbacks\<close>

lemma unresolvable_NoneObject:
  "dpc_unresolvable vm st t \<Longrightarrow> \<exists>msg. snd (Dpc vm st t) = NoneObject msg"
  by (auto simp: dpc_unresolvable_def Dpc_def Let_def split: option.splits)

lemma unresolvable_preserved:
  "dpc_unresolvable vm st t \<Longrightarrow> dpc_unresolvable vm (fst (Dpc vm st t')) t"
  by (auto simp: dpc_unresolvable_def Dpc_def Let_def hasattr_def split: option.splits)

lemma find_module_NoneObject:
  "find_module mods addrs (map_option f (DeferredRoutine vm (NoneObject msg))) = None"
  by (simp add: find_module_def DeferredRoutine_def)

lemma attribute_unresolvable:
  assumes "dpc_unresolvable vm st t" and "Header_Type t \<in> set valid_types"
  shows "(t \<in> set timers \<longrightarrow> (t, None) \<in> set (snd (attribute vm mods addrs st timers)))
       \<and> (\<forall>m. (t, m) \<in> set (snd (attribute vm mods addrs st timers)) \<longrightarrow> m = None)"
  using assms(1)
proof (induction timers arbitrary: st)
  case Nil
  show ?case by simp
next
  case (Cons u us)
  show ?case
  proof (cases "Header_Type u \<in> set valid_types")
    case False
    with assms(2) have "u \<noteq> t" by auto
    with False Cons.IH[OF Cons.prems] show ?thesis by simp
  next
    case True
    let ?st1 = "fst (Dpc vm st u)"
    have ih: "(t \<in> set us \<longrightarrow> (t, None) \<in> set (snd (attribute vm mods addrs ?st1 us)))
       \<and> (\<forall>m. (t, m) \<in> set (snd (attribute vm mods addrs ?st1 us)) \<longrightarrow> m = None)"
      by (rule Cons.IH[OF unresolvable_preserved[OF Cons.prems]])
    have hd: "u = t \<Longrightarrow>
      find_module mods addrs (map_option (address_mask vm) (DeferredRoutine vm (snd (Dpc vm st u))))
        = None"
      using unresolvable_NoneObject[OF Cons.prems] by (auto simp: find_module_NoneObject)
    from True ih hd show ?thesis
      by (auto simp: case_prod_unfold Let_def)
  qed
qed

subsection \<open>Rows\<close>

lemma generator_modules:
  "map row_module (snd (generator vm st data)) =
   map (\<lambda>(t, m). case m of Some m \<Rightarrow> (case BaseDllName m of Some s \<Rightarrow> s | None \<Rightarrow> [])
                   | None \<Rightarrow> ''UNKNOWN'') data"
  by (induction data arbitrary: st) (auto simp: case_prod_unfold Let_def)

lemma table_rows_eq_generator: "table_rows vm st data = generator vm st data"
  by (induction data arbitrary: st) (auto simp: case_prod_unfold Let_def)

lemma render_text_rows: "snd (snd (render_text vm st data)) = snd (generator vm st data)"
  by (simp add: render_text_def Let_def case_prod_unfold table_rows_eq_generator)

lemma length_generator: "length (snd (generator vm st data)) = length data"
  using arg_cong[OF generator_modules[of vm st data], of length] by simp

lemma generator_unknown_rows:
  assumes "\<forall>m. (t, m) \<in> set out \<longrightarrow> m = None" and "i < length out" and "fst (out ! i) = t"
  shows "row_module (snd (generator vm st out) ! i) = ''UNKNOWN''"
proof -
  from assms(2,3) have "(t, snd (out ! i)) \<in> set out"
    by (metis nth_mem prod.collapse)
  with assms(1) have n: "snd (out ! i) = None" by blast
  have "row_module (snd (generator vm st out) ! i) = map row_module (snd (generator vm st out)) ! i"
    using assms(2) by (simp add: length_generator)
  also have "\<dots> = ''UNKNOWN''"
    unfolding generator_modules using assms(2) n by (simp add: case_prod_unfold)
  finally show ?thesis .
qed

lemma collect_orphan:
  "collect_timers cfg0 (vm0\<lparr>kpcr_timers := [orphan_timer]\<rparr>) [] = Inr ([], [orphan_timer])"
  by (simp add: collect_timers_def branch_C_def select_branch_def tuple_ge_def version_of_def
      build_of_def vm0_def)

subsection \<open>Hexadecimal formatting\<close>

lemma hex_char_0: "hex_char 0 = CHR ''0''"
  by (simp add: hex_char_def)

lemma hex_digits_small: "n < 16 \<Longrightarrow> hex_digits n = [hex_char n]"
  by (simp add: hex_digits.simps)

lemma hex_digits_large:
  "\<not> n < 16 \<Longrightarrow> hex_digits n = hex_digits (n div 16) @ [hex_char (n mod 16)]"
  by (subst hex_digits.simps) simp

lemma hex_digits_nonempty: "0 < length (hex_digits n)"
  by (cases "n < 16") (simp_all add: hex_digits_small hex_digits_large)

lemma padded_step:
  assumes "0 < j"
  shows "replicate (Suc j - length (hex_digits n)) CHR ''0'' @ hex_digits n =
         (replicate (j - length (hex_digits (n div 16))) CHR ''0'' @ hex_digits (n div 16))
           @ [hex_char (n mod 16)]"
proof (cases "n < 16")
  case True
  from assms obtain j' where j: "j = Suc j'" by (cases j) auto
  have "replicate j' CHR ''0'' @ [CHR ''0''] = replicate (Suc j') CHR ''0''"
    by (simp add: replicate_append_same)
  with True show ?thesis
    by (simp add: hex_digits_small hex_char_0 j)
next
  case False
  then show ?thesis by (simp add: hex_digits_large)
qed

lemma digits_step:
  "map (\<lambda>i. hex_char (n div 16 ^ i mod 16)) (rev [0..<Suc j]) =
   map (\<lambda>i. hex_char (n div 16 div 16 ^ i mod 16)) (rev [0..<j]) @ [hex_char (n mod 16)]"
proof -
  have "[0..<Suc j] = 0 # map Suc [0..<j]"
    by (simp add: upt_conv_Cons map_Suc_upt del: upt_Suc)
  then have "rev [0..<Suc j] = rev (map Suc [0..<j]) @ [0]" by simp
  then show ?thesis
    by (simp add: rev_map div_mult2_eq del: upt_Suc)
qed

lemma hex_digits_padded:
  "0 < k \<Longrightarrow> n < 16 ^ k \<Longrightarrow>
   replicate (k - length (hex_digits n)) CHR ''0'' @ hex_digits n =
   map (\<lambda>i. hex_char (n div 16 ^ i mod 16)) (rev [0..<k])"
proof (induction k arbitrary: n)
  case 0
  then show ?case by simp
next
  case (Suc j)
  show ?case
  proof (cases "j = 0")
    case True
    with Suc.prems show ?thesis by (simp add: hex_digits_small)
  next
    case False
    then have j: "0 < j" by simp
    from Suc.prems have "n div 16 < 16 ^ j"
      by (simp add: less_mult_imp_div_less mult.commute)
    from Suc.IH[OF j this] show ?thesis
      unfolding padded_step[OF j] digits_step by simp
  qed
qed

lemma nibble: "unat (drop_bit (4 * i) w AND (0xF :: 32 word)) = unat w div 16 ^ i mod 16"
proof -
  have "drop_bit (4 * i) w AND (0xF :: 32 word) = take_bit 4 (drop_bit (4 * i) w)"
    by (simp add: take_bit_eq_mask mask_eq_exp_minus_1)
  then have "unat (drop_bit (4 * i) w AND (0xF :: 32 word)) = take_bit 4 (unat (drop_bit (4 * i) w))"
    by (simp add: unsigned_take_bit_eq)
  also have "\<dots> = take_bit 4 (drop_bit (4 * i) (unat w))"
    by (simp only: unat_drop_bit_eq)
  also have "\<dots> = unat w div 2 ^ (4 * i) mod 16"
    by (simp add: take_bit_eq_mod drop_bit_eq_div)
  also have "(2::nat) ^ (4 * i) = 16 ^ i"
    by (simp add: power_mult)
  finally show ?thesis .
qed

lemma format_010x_hex8: "format_010x (unat (w :: 32 word)) = ''0x'' @ hex8 w"
proof -
  have "unat w < 2 ^ 32" using unsigned_less[of w] by simp
  then have lt: "unat w < 16 ^ 8" by simp
  have "rev [0..<8] = [7, 6, 5, 4, 3, 2, 1, (0::nat)]"
    by (simp add: upt_rec)
  with hex_digits_padded[OF _ lt]
  have "replicate (8 - length (hex_digits (unat w))) CHR ''0'' @ hex_digits (unat w) = hex8 w"
    by (simp add: hex8_def nibble)
  then show ?thesis by (simp add: format_010x_def)
qed

lemma length_hex8: "length (hex8 w) = 8"
  by (simp add: hex8_def)

lemma generator_signaled:
  "map row_signaled (snd (generator vm st data)) =
   map (\<lambda>(t, m). if Header_SignalState t \<noteq> 0 then ''Yes'' else ''-'') data"
  by (induction data arbitrary: st) (auto simp: case_prod_unfold Let_def)

lemma generator_due_time:
  "map row_due_time (snd (generator vm st data)) =
   map (\<lambda>(t, m). ''0x'' @ hex8 (DueTime_HighPart t) @ '':0x'' @ hex8 (DueTime_LowPart t)) data"
  by (induction data arbitrary: st) (auto simp: case_prod_unfold Let_def format_010x_hex8)

subsection \<open>The displacement read by \<open>find_list_head_offset\<close>\<close>

text \<open>
  The four bytes are read unsigned: the result is the signed sum when the
  displacement is not negative, and \<open>2 ^ 32\<close> above it when it is.
\<close>

lemma unpack_I_range:
  "0 \<le> uint (b0::byte) + 256 * uint (b1::byte) + 65536 * uint (b2::byte) + 16777216 * uint (b3::byte)
   \<and> uint b0 + 256 * uint b1 + 65536 * uint b2 + 16777216 * uint b3 < 2 ^ 32"
proof -
  have "uint b0 < 256" "uint b1 < 256" "uint b2 < 256" "uint b3 < 256"
    using uint_bounded[of b0] uint_bounded[of b1] uint_bounded[of b2] uint_bounded[of b3]
    by simp_all
  moreover have "0 \<le> uint b0" "0 \<le> uint b1" "0 \<le> uint b2" "0 \<le> uint b3" by simp_all
  ultimately show ?thesis by simp
qed

lemma sint_of_unsigned:
  assumes "0 \<le> u" and "u < 2 ^ 32"
  shows "u = sint (word_of_int u :: 32 word) + (if sint (word_of_int u :: 32 word) < 0 then 2 ^ 32 else 0)"
proof -
  let ?w = "word_of_int u :: 32 word"
  have "uint ?w = u" using assms by (simp add: uint_word_of_int take_bit_eq_mod)
  then have u: "u = sint ?w mod 2 ^ 32"
    using uint_sint[of ?w] by (simp add: take_bit_eq_mod)
  have lo: "- (2 ^ 31) \<le> sint ?w" using sint_ge[of ?w] by simp
  have hi: "sint ?w < 2 ^ 31" using sint_lt[of ?w] by simp
  show ?thesis
  proof (cases "sint ?w < 0")
    case True
    have "sint ?w mod 2 ^ 32 = (sint ?w + 2 ^ 32) mod 2 ^ 32" by simp
    also have "\<dots> = sint ?w + 2 ^ 32"
      using lo True by (intro mod_pos_pos_trivial) simp_all
    finally show ?thesis using u True by simp
  next
    case False
    then have "sint ?w mod 2 ^ 32 = sint ?w"
      using hi by (intro mod_pos_pos_trivial) simp_all
    with u False show ?thesis by simp
  qed
qed

lemma find_list_head_offset_value:
  assumes "getprocaddress nt_mod func = Some rva"
    and "str_find (zread vm (rva + DllBase nt_mod) 300) sig = Some n"
    and "zread vm (rva + DllBase nt_mod + int n + int (length sig)) 4 = [b0, b1, b2, b3]"
  shows "find_list_head_offset vm nt_mod func sig =
    Inr (Some (signed_displacement [b0, b1, b2, b3]
               + (if signed_displacement [b0, b1, b2, b3] < 0 then 2 ^ 32 else 0)
               + (rva + DllBase nt_mod + int n + int (length sig) + 4)))"
proof -
  let ?u = "uint b0 + 256 * uint b1 + 65536 * uint b2 + 16777216 * uint b3"
  have s: "signed_displacement [b0, b1, b2, b3] = sint (word_of_int ?u :: 32 word)"
    by (simp add: signed_displacement_def struct_unpack_I_def)
  have "?u = signed_displacement [b0, b1, b2, b3]
               + (if signed_displacement [b0, b1, b2, b3] < 0 then 2 ^ 32 else 0)"
    unfolding s using unpack_I_range[of b0 b1 b2 b3] by (intro sint_of_unsigned) simp_all
  moreover have "find_list_head_offset vm nt_mod func sig =
    Inr (Some (?u + (rva + DllBase nt_mod) + int n + int (length sig) + 4))"
    using assms by (simp add: find_list_head_offset_def Let_def struct_unpack_I_def)
  ultimately show ?thesis by simp
qed

section \<open>The claims\<close>

text \<open>
  Claim C1. On a 64-bit target, for a timer whose parent chain reaches a true
  \<open>_KDDEBUGGER_DATA64\<close> object and with the secrets \<open>(never, always)\<close>, cached on
  that object or just found by the scan, \<open>Dpc\<close> returns the \<open>_KDPC\<close> at
  \<open>bswap (rol (v XOR never) (never AND 0xFF) XOR o) XOR always\<close>, where \<open>v\<close> is the
  stored field and \<open>o\<close> the offset of the timer; \<open>bswap\<close> puts byte \<open>7 - i\<close> of
  its argument at byte \<open>i\<close>, and the rotation is to the left by the low 8 bits
  of \<open>never\<close> modulo 64.
\<close>

theorem Dpc_decoded_pointer:
  "(md_memory_model vm \<noteq> Some ''32bit'' \<and>
    climb (self_obj_parent self) = Some parent \<and> obj_truth parent \<and>
    ((hasattr st parent ''wait_always'' \<and> hasattr st parent ''wait_never'' \<and>
      getattr st parent ''wait_never'' = never \<and> getattr st parent ''wait_always'' = always) \<or>
     ((\<not> hasattr st parent ''wait_always'' \<or> \<not> hasattr st parent ''wait_never'') \<and>
      VolatilityKDBG_v vm = Some (never, always)))
    \<longrightarrow>
    snd (Dpc vm st self) =
      Object_KDPC (bswap (rol (m_Dpc self XOR never) (unat (never AND 0xFF)) XOR obj_offset self)
                   XOR always))
   \<and> (\<forall>x. \<forall>i<8. byte_at (bswap x) i = byte_at x (7 - i))
   \<and> (\<forall>x. rol x (unat (never AND 0xFF)) = word_rotl (unat never mod 256 mod 64) x)"
proof (intro conjI impI allI)
  assume h: "md_memory_model vm \<noteq> Some ''32bit'' \<and>
    climb (self_obj_parent self) = Some parent \<and> obj_truth parent \<and>
    ((hasattr st parent ''wait_always'' \<and> hasattr st parent ''wait_never'' \<and>
      getattr st parent ''wait_never'' = never \<and> getattr st parent ''wait_always'' = always) \<or>
     ((\<not> hasattr st parent ''wait_always'' \<or> \<not> hasattr st parent ''wait_never'') \<and>
      VolatilityKDBG_v vm = Some (never, always)))"
  then consider
    (cached) "hasattr st parent ''wait_always''" "hasattr st parent ''wait_never''"
      "getattr st parent ''wait_never'' = never" "getattr st parent ''wait_always'' = always"
  | (scan) "\<not> hasattr st parent ''wait_always'' \<or> \<not> hasattr st parent ''wait_never''"
      "VolatilityKDBG_v vm = Some (never, always)"
    by blast
  then show "snd (Dpc vm st self) =
      Object_KDPC (bswap (rol (m_Dpc self XOR never) (unat (never AND 0xFF)) XOR obj_offset self)
                   XOR always)"
  proof cases
    case cached
    with h show ?thesis by (simp add: Dpc_cached decode_def decode_value_def)
  next
    case scan
    with h show ?thesis by (simp add: Dpc_scan_ok decode_value_def)
  qed
next
  fix x :: u64 and i :: nat
  assume "i < 8"
  then show "byte_at (bswap x) i = byte_at x (7 - i)" by (rule byte_at_bswap)
next
  fix x :: u64
  show "rol x (unat (never AND 0xFF)) = word_rotl (unat never mod 256 mod 64) x"
    by (simp add: rol_def low_byte)
qed

text \<open>The first read of the sample timer, which runs the scan.\<close>

theorem Dpc_decoded_pointer_witness:
  "snd (Dpc vm0 st0 timer0) =
     Object_KDPC (bswap (rol (0x1122334455667788 XOR 0x0123456789ABCDEF)
                              (unat (0x0123456789ABCDEF AND (0xFF :: u64)))
                         XOR 0xFFFFFA8001234560) XOR 0xFEDCBA9876543210)"
proof -
  have "md_memory_model vm0 \<noteq> Some ''32bit''" by (simp add: vm0_def)
  moreover have "obj_truth kdbg0" by (simp add: kdbg0_def)
  moreover have "\<not> hasattr st0 kdbg0 ''wait_always''" by (simp add: hasattr_def st0_def)
  moreover have "VolatilityKDBG_v vm0 = Some (0x0123456789ABCDEF, 0xFEDCBA9876543210)"
    by (simp add: vm0_def)
  moreover have "m_Dpc timer0 = 0x1122334455667788" "obj_offset timer0 = 0xFFFFFA8001234560"
    by (simp_all add: timer0_def)
  ultimately show ?thesis
    using Dpc_decoded_pointer[of vm0 timer0 kdbg0 st0 "0x0123456789ABCDEF" "0xFEDCBA9876543210"] climb_timer0
    by simp
qed

text \<open>
  Claim C2. The branch depends on \<open>(major, minor, build)\<close> only, not on the memory
  model: (5,1) with any build and (5,2) with build 3789 select branch A; (5,2)
  with any other build and (6,0) select branch B; every version from (6,1) on,
  (7,0) among them, selects branch C, and (6,1) with build 0 already does.
  So does \<open>calculate\<close> on the metadata of the profile: it collects with branch A,
  B or C for exactly these entries \<open>major\<close>, \<open>minor\<close> and \<open>build\<close>. Given the table
  address, branch A walks the array of 256 list heads and branch B the array of
  512 table entries; branch C walks the per-processor timer tables.
\<close>

theorem branch_selection:
  "select_branch (5, 1) build = Some BranchA
   \<and> select_branch (5, 2) 3789 = Some BranchA
   \<and> (build \<noteq> 3789 \<longrightarrow> select_branch (5, 2) build = Some BranchB)
   \<and> select_branch (6, 0) build = Some BranchB
   \<and> (major > 6 \<or> (major = 6 \<and> minor \<ge> 1) \<longrightarrow> select_branch (major, minor) build = Some BranchC)
   \<and> select_branch (7, 0) build = Some BranchC
   \<and> select_branch (6, 1) 0 = Some BranchC
   \<and> (md_major vm = md_major vm' \<and> md_minor vm = md_minor vm' \<and> md_build vm = md_build vm'
        \<longrightarrow> select_branch (version_of vm) (build_of vm) =
            select_branch (version_of vm') (build_of vm'))
   \<and> (select_branch (version_of vm) (build_of vm) = Some BranchA \<and> LISTHEAD cfg = Some a \<and> a \<noteq> 0
        \<longrightarrow> collect_timers cfg vm modlist = Inr ([], list_heads_timers vm a))
   \<and> (select_branch (version_of vm) (build_of vm) = Some BranchB \<and> LISTHEAD cfg = Some a \<and> a \<noteq> 0
        \<longrightarrow> collect_timers cfg vm modlist = Inr ([], table_entries_timers vm a))
   \<and> (select_branch (version_of vm) (build_of vm) = Some BranchC
        \<longrightarrow> collect_timers cfg vm modlist = Inr ([], kpcr_timers vm))
   \<and> (md_major vm = Some 5 \<and> md_minor vm = Some 1
        \<longrightarrow> select_branch (version_of vm) (build_of vm) = Some BranchA \<and>
            collect_timers cfg vm modlist = branch_A cfg vm modlist)
   \<and> (md_major vm = Some 5 \<and> md_minor vm = Some 2 \<and> md_build vm = Some 3789
        \<longrightarrow> select_branch (version_of vm) (build_of vm) = Some BranchA \<and>
            collect_timers cfg vm modlist = branch_A cfg vm modlist)
   \<and> (md_major vm = Some 5 \<and> md_minor vm = Some 2 \<and> md_build vm \<noteq> Some 3789
        \<longrightarrow> select_branch (version_of vm) (build_of vm) = Some BranchB \<and>
            collect_timers cfg vm modlist = branch_B cfg vm modlist)
   \<and> (md_major vm = Some 6 \<and> md_minor vm = Some 0
        \<longrightarrow> select_branch (version_of vm) (build_of vm) = Some BranchB \<and>
            collect_timers cfg vm modlist = branch_B cfg vm modlist)
   \<and> (md_major vm = Some major \<and> md_minor vm = Some minor \<and>
       (major > 6 \<or> (major = 6 \<and> minor \<ge> 1))
        \<longrightarrow> select_branch (version_of vm) (build_of vm) = Some BranchC \<and>
            collect_timers cfg vm modlist = branch_C vm)
   \<and> (LISTHEAD cfg = Some a \<and> a \<noteq> 0
        \<longrightarrow> branch_A cfg vm modlist =
            Inr ([], concat (map (\<lambda>i. list_of_type vm (a + int i * sizeof_LIST_ENTRY vm))
                                 [0..<256])))
   \<and> (LISTHEAD cfg = Some a \<and> a \<noteq> 0
        \<longrightarrow> branch_B cfg vm modlist =
            Inr ([], concat (map (\<lambda>i. list_of_type vm
                                         (a + int i * tbl_size (KTIMER_TABLE_ENTRY_type vm)
                                            + tbl_Entry (KTIMER_TABLE_ENTRY_type vm)))
                                 [0..<512])))
   \<and> branch_C vm = Inr ([], kpcr_timers vm)"
proof -
  have sel: "select_branch (5, 1) build = Some BranchA
   \<and> select_branch (5, 2) 3789 = Some BranchA
   \<and> (build \<noteq> 3789 \<longrightarrow> select_branch (5, 2) build = Some BranchB)
   \<and> select_branch (6, 0) build = Some BranchB
   \<and> (major > 6 \<or> (major = 6 \<and> minor \<ge> 1) \<longrightarrow> select_branch (major, minor) build = Some BranchC)
   \<and> select_branch (7, 0) build = Some BranchC
   \<and> select_branch (6, 1) 0 = Some BranchC"
    by (simp add: select_branch_def tuple_ge_def)
  have pure: "md_major vm = md_major vm' \<and> md_minor vm = md_minor vm' \<and> md_build vm = md_build vm'
        \<longrightarrow> select_branch (version_of vm) (build_of vm) =
            select_branch (version_of vm') (build_of vm')"
    by (simp add: version_of_def build_of_def)
  have A: "select_branch (version_of vm) (build_of vm) = Some BranchA \<and> LISTHEAD cfg = Some a \<and> a \<noteq> 0
        \<longrightarrow> collect_timers cfg vm modlist = Inr ([], list_heads_timers vm a)"
    by (simp add: collect_timers_def branch_A_def list_head_A_def py_true_def)
  have B: "select_branch (version_of vm) (build_of vm) = Some BranchB \<and> LISTHEAD cfg = Some a \<and> a \<noteq> 0
        \<longrightarrow> collect_timers cfg vm modlist = Inr ([], table_entries_timers vm a)"
    by (simp add: collect_timers_def branch_B_def list_head_B_def py_true_def)
  have C: "select_branch (version_of vm) (build_of vm) = Some BranchC
        \<longrightarrow> collect_timers cfg vm modlist = Inr ([], kpcr_timers vm)"
    by (simp add: collect_timers_def branch_C_def)
  have P1: "md_major vm = Some 5 \<and> md_minor vm = Some 1
        \<longrightarrow> select_branch (version_of vm) (build_of vm) = Some BranchA \<and>
            collect_timers cfg vm modlist = branch_A cfg vm modlist"
    by (simp add: collect_timers_def select_branch_def version_of_def)
  have P2: "md_major vm = Some 5 \<and> md_minor vm = Some 2 \<and> md_build vm = Some 3789
        \<longrightarrow> select_branch (version_of vm) (build_of vm) = Some BranchA \<and>
            collect_timers cfg vm modlist = branch_A cfg vm modlist"
    by (simp add: collect_timers_def select_branch_def version_of_def build_of_def)
  have P3: "md_major vm = Some 5 \<and> md_minor vm = Some 2 \<and> md_build vm \<noteq> Some 3789
        \<longrightarrow> select_branch (version_of vm) (build_of vm) = Some BranchB \<and>
            collect_timers cfg vm modlist = branch_B cfg vm modlist"
    by (auto simp: collect_timers_def select_branch_def version_of_def build_of_def
        split: option.splits)
  have P4: "md_major vm = Some 6 \<and> md_minor vm = Some 0
        \<longrightarrow> select_branch (version_of vm) (build_of vm) = Some BranchB \<and>
            collect_timers cfg vm modlist = branch_B cfg vm modlist"
    by (simp add: collect_timers_def select_branch_def version_of_def)
  have P5: "md_major vm = Some major \<and> md_minor vm = Some minor \<and>
       (major > 6 \<or> (major = 6 \<and> minor \<ge> 1))
        \<longrightarrow> select_branch (version_of vm) (build_of vm) = Some BranchC \<and>
            collect_timers cfg vm modlist = branch_C vm"
    by (auto simp: collect_timers_def select_branch_def tuple_ge_def version_of_def)
  have E1: "LISTHEAD cfg = Some a \<and> a \<noteq> 0
        \<longrightarrow> branch_A cfg vm modlist =
            Inr ([], concat (map (\<lambda>i. list_of_type vm (a + int i * sizeof_LIST_ENTRY vm))
                                 [0..<256]))"
    by (simp add: branch_A_def list_head_A_def py_true_def list_heads_timers_def)
  have E2: "LISTHEAD cfg = Some a \<and> a \<noteq> 0
        \<longrightarrow> branch_B cfg vm modlist =
            Inr ([], concat (map (\<lambda>i. list_of_type vm
                                         (a + int i * tbl_size (KTIMER_TABLE_ENTRY_type vm)
                                            + tbl_Entry (KTIMER_TABLE_ENTRY_type vm)))
                                 [0..<512]))"
    by (simp add: branch_B_def list_head_B_def py_true_def table_entries_timers_def)
  have E3: "branch_C vm = Inr ([], kpcr_timers vm)"
    by (simp add: branch_C_def)
  from sel pure A B C P1 P2 P3 P4 P5 E1 E2 E3 show ?thesis by blast
qed

text \<open>
  Windows XP, 2003, 2003 SP1, Vista SP2, 10 and 8.1; a table address given on
  the command line: the timer on the last of the 256 list heads of XP and on the
  last of the 512 table entries of Vista is collected, one slot further it is
  not; with the metadata (5, 2) the build 3789 takes branch A and 3790 branch B.
\<close>

theorem branch_selection_witness:
  "select_branch (5, 1) 2600 = Some BranchA
   \<and> select_branch (5, 2) 3789 = Some BranchA
   \<and> select_branch (5, 2) 3790 = Some BranchB
   \<and> select_branch (6, 0) 6002 = Some BranchB
   \<and> select_branch (10, 0) 19041 = Some BranchC
   \<and> select_branch (6, 3) 9600 = Some BranchC
   \<and> select_branch (version_of vm0) (build_of vm0) =
       select_branch (version_of (vm0\<lparr>md_memory_model := Some ''32bit''\<rparr>))
         (build_of (vm0\<lparr>md_memory_model := Some ''32bit''\<rparr>))
   \<and> collect_timers cfg0 vm0 [] = Inr ([], kpcr_timers vm0)
   \<and> collect_timers cfg_listhead (vm_xp 255) [] = Inr ([], [timer0])
   \<and> collect_timers cfg_listhead (vm_xp 256) [] = Inr ([], [])
   \<and> collect_timers cfg_listhead (vm_vista 511) [] = Inr ([], [timer0])
   \<and> collect_timers cfg_listhead (vm_vista 512) [] = Inr ([], [])
   \<and> collect_timers cfg_listhead ((vm_xp 255)\<lparr>md_minor := Some 2, md_build := Some 3789\<rparr>) [] =
       Inr ([], [timer0])
   \<and> collect_timers cfg_listhead ((vm_xp 255)\<lparr>md_minor := Some 2, md_build := Some 3790\<rparr>) [] =
       branch_B cfg_listhead ((vm_xp 255)\<lparr>md_minor := Some 2, md_build := Some 3790\<rparr>) []"
proof -
  have a: "select_branch (5, 1) 2600 = Some BranchA
     \<and> select_branch (5, 2) 3789 = Some BranchA
     \<and> select_branch (5, 2) 3790 = Some BranchB
     \<and> select_branch (6, 0) 6002 = Some BranchB"
    using branch_selection[of 2600 6 3 vm0 vm0 cfg0 0 "[]"]
      branch_selection[of 3790 6 3 vm0 vm0 cfg0 0 "[]"]
      branch_selection[of 6002 6 3 vm0 vm0 cfg0 0 "[]"] by simp
  have b: "select_branch (10, 0) 19041 = Some BranchC"
    using branch_selection[of 19041 10 0 vm0 vm0 cfg0 0 "[]"] by simp
  have c: "select_branch (6, 3) 9600 = Some BranchC"
    using branch_selection[of 9600 6 3 vm0 vm0 cfg0 0 "[]"] by simp
  have d: "select_branch (version_of vm0) (build_of vm0) =
       select_branch (version_of (vm0\<lparr>md_memory_model := Some ''32bit''\<rparr>))
         (build_of (vm0\<lparr>md_memory_model := Some ''32bit''\<rparr>))"
    using branch_selection[of 0 6 3 vm0 "vm0\<lparr>md_memory_model := Some ''32bit''\<rparr>" cfg0 0 "[]"]
    by simp
  have lh: "LISTHEAD cfg_listhead = Some 0x80545000" "(0x80545000 :: int) \<noteq> 0"
    by (simp_all add: cfg_listhead_def)
  have m0: "md_major vm0 = Some 6" "md_minor vm0 = Some 1" by (simp_all add: vm0_def)
  have g: "collect_timers cfg0 vm0 [] = Inr ([], kpcr_timers vm0)"
    using branch_selection[of 0 6 1 vm0 vm0 cfg0 0 "[]"] m0 by simp
  have xp: "md_major (vm_xp s) = Some 5" "md_minor (vm_xp s) = Some 1" for s
    by (simp_all add: vm_xp_def)
  have cA: "collect_timers cfg_listhead (vm_xp s) [] =
      Inr ([], concat (map (\<lambda>i. list_of_type (vm_xp s)
                                    (0x80545000 + int i * sizeof_LIST_ENTRY (vm_xp s)))
                        [0..<256]))" for s
    using branch_selection[of 0 6 3 "vm_xp s" "vm_xp s" cfg_listhead "0x80545000" "[]"]
      xp[of s] lh by simp
  have wA1: "concat (map (\<lambda>i. list_of_type (vm_xp 255)
                                    (0x80545000 + int i * sizeof_LIST_ENTRY (vm_xp 255)))
                        [0..<256]) = [timer0]"
    by code_simp
  have wA2: "concat (map (\<lambda>i. list_of_type (vm_xp 256)
                                    (0x80545000 + int i * sizeof_LIST_ENTRY (vm_xp 256)))
                        [0..<256]) = []"
    by code_simp
  have vi: "md_major (vm_vista s) = Some 6" "md_minor (vm_vista s) = Some 0" for s
    by (simp_all add: vm_vista_def)
  have cB: "collect_timers cfg_listhead (vm_vista s) [] =
      Inr ([], concat (map (\<lambda>i. list_of_type (vm_vista s)
                 (0x80545000 + int i * tbl_size (KTIMER_TABLE_ENTRY_type (vm_vista s))
                    + tbl_Entry (KTIMER_TABLE_ENTRY_type (vm_vista s))))
                        [0..<512]))" for s
    using branch_selection[of 0 6 3 "vm_vista s" "vm_vista s" cfg_listhead "0x80545000" "[]"]
      vi[of s] lh by simp
  have wB1: "concat (map (\<lambda>i. list_of_type (vm_vista 511)
                 (0x80545000 + int i * tbl_size (KTIMER_TABLE_ENTRY_type (vm_vista 511))
                    + tbl_Entry (KTIMER_TABLE_ENTRY_type (vm_vista 511))))
                        [0..<512]) = [timer0]"
    by code_simp
  have wB2: "concat (map (\<lambda>i. list_of_type (vm_vista 512)
                 (0x80545000 + int i * tbl_size (KTIMER_TABLE_ENTRY_type (vm_vista 512))
                    + tbl_Entry (KTIMER_TABLE_ENTRY_type (vm_vista 512))))
                        [0..<512]) = []"
    by code_simp
  let ?v89 = "(vm_xp 255)\<lparr>md_minor := Some 2, md_build := Some 3789\<rparr>"
  let ?v90 = "(vm_xp 255)\<lparr>md_minor := Some 2, md_build := Some 3790\<rparr>"
  have m89: "md_major ?v89 = Some 5" "md_minor ?v89 = Some 2" "md_build ?v89 = Some 3789"
    and m90: "md_major ?v90 = Some 5" "md_minor ?v90 = Some 2" "md_build ?v90 \<noteq> Some 3789"
    by (simp_all add: vm_xp_def)
  have same: "list_of_type ?v89 = list_of_type (vm_xp 255)"
    "sizeof_LIST_ENTRY ?v89 = sizeof_LIST_ENTRY (vm_xp 255)"
    by simp_all
  have h89: "collect_timers cfg_listhead ?v89 [] = Inr ([], [timer0])"
    using branch_selection[of 0 6 3 ?v89 ?v89 cfg_listhead "0x80545000" "[]"] m89 lh
    unfolding same wA1 by simp
  have h90: "collect_timers cfg_listhead ?v90 [] = branch_B cfg_listhead ?v90 []"
    using branch_selection[of 0 6 3 ?v90 ?v90 cfg_listhead "0x80545000" "[]"] m90 by simp
  from a b c d g cA[of 255] cA[of 256] cB[of 511] cB[of 512] h89 h90 show ?thesis
    unfolding wA1 wA2 wB1 wB2 by blast
qed

text \<open>
  Claim C3, at a failing input. With the displacement bytes \<open>F0 FF FF FF\<close> after
  the signature matched at offset 2 of the function at \<open>0x140001000\<close>, the
  resolver returns 9663680510: it reads the bytes as the unsigned 4294967280.
  The signed displacement -16 gives 5368713214, \<open>2 ^ 32\<close> less.
\<close>

theorem relative_displacement_read_unsigned:
  "find_list_head_offset vm_rel nt0 ''KeCancelTimer''
     [0x48, 0x8D, 0x4C, 0x6D, 0x00, 0x48, 0x8D, 0x05] = Inr (Some 9663680510)
   \<and> signed_displacement [0xF0, 0xFF, 0xFF, 0xFF] + (0x140001000 + 2 + 8 + 4) = 5368713214"
  by code_simp

text \<open>
  Claim C4 as stated: with the steps in the listed order (inverse-rotate before
  XOR offset) the round trip fails at value 0, offset 1, never 1, always 0.
\<close>

theorem listed_order_roundtrip_counterexample: "encode_as_listed (decode_value 0 1 1 0) 1 1 0 \<noteq> 0"
  by code_simp

text \<open>
  Claim C4, amended. With \<open>encode\<close> the inverse in the order XOR always, byteswap,
  XOR offset, inverse-rotate by \<open>never AND 0xFF\<close>, XOR never, encoding a decoded
  value gives the value back, for all 64-bit values, offsets and secrets.
\<close>

theorem encode_decode_roundtrip: "encode (decode_value v offset never always) offset never always = v"
  by (simp add: encode_def decode_value_def rol_def bswap_bswap word_bw_comms(3))

text \<open>
  Claim C5 as stated: when the scan fails, a second read of the property runs the
  scan a second time.
\<close>

theorem failed_scan_rerun_counterexample:
  "kdbg_scans (fst (Dpc_reads (vm0\<lparr>VolatilityKDBG_v := None\<rparr>) st0 [timer0, timer0])) = 2"
  by (simp add: Dpc_def Let_def vm0_def st0_def climb_timer0 hasattr_def kdbg0_def)

text \<open>
  Claim C5, amended. Over any sequence of reads of timers that resolve to one
  debugger object: if the scan succeeds it runs at most once, and after a read
  on a 64-bit target the secrets are attributes of that object; if the scan
  fails, nothing is cached, every read fails with "Cannot find KDBG structure",
  and every read runs the scan again.
\<close>

theorem secrets_cached_on_success_only:
  "(VolatilityKDBG_v vm \<noteq> None \<and>
    (\<forall>t\<in>set ts. \<forall>p. climb (self_obj_parent t) = Some p \<longrightarrow> obj_id p = k)
    \<longrightarrow> kdbg_scans (fst (Dpc_reads vm st ts)) \<le> Suc (kdbg_scans st))
   \<and> (md_memory_model vm \<noteq> Some ''32bit'' \<and> VolatilityKDBG_v vm \<noteq> None \<and> obj_truth kd \<and>
       ts \<noteq> [] \<and> (\<forall>t\<in>set ts. climb (self_obj_parent t) = Some kd)
       \<longrightarrow> hasattr (fst (Dpc_reads vm st ts)) kd ''wait_never'' \<and>
           hasattr (fst (Dpc_reads vm st ts)) kd ''wait_always'')
   \<and> (md_memory_model vm \<noteq> Some ''32bit'' \<and> VolatilityKDBG_v vm = None \<and> obj_truth kd \<and>
       (\<forall>t\<in>set ts. climb (self_obj_parent t) = Some kd) \<and>
       (\<not> hasattr st kd ''wait_always'' \<or> \<not> hasattr st kd ''wait_never'')
       \<longrightarrow> Dpc_reads vm st ts =
             (st\<lparr>kdbg_scans := kdbg_scans st + length ts\<rparr>,
              replicate (length ts) (NoneObject ''Cannot find KDBG structure'')))"
proof (intro conjI impI)
  assume "VolatilityKDBG_v vm \<noteq> None \<and>
    (\<forall>t\<in>set ts. \<forall>p. climb (self_obj_parent t) = Some p \<longrightarrow> obj_id p = k)"
  then show "kdbg_scans (fst (Dpc_reads vm st ts)) \<le> Suc (kdbg_scans st)"
    by (intro Dpc_reads_scan_once[where k = k]) simp_all
next
  assume h: "md_memory_model vm \<noteq> Some ''32bit'' \<and> VolatilityKDBG_v vm \<noteq> None \<and> obj_truth kd \<and>
       ts \<noteq> [] \<and> (\<forall>t\<in>set ts. climb (self_obj_parent t) = Some kd)"
  then obtain never always where "VolatilityKDBG_v vm = Some (never, always)" by auto
  with h show "hasattr (fst (Dpc_reads vm st ts)) kd ''wait_never''"
    and "hasattr (fst (Dpc_reads vm st ts)) kd ''wait_always''"
    using Dpc_reads_caches[of vm never always ts kd st] by simp_all
next
  assume "md_memory_model vm \<noteq> Some ''32bit'' \<and> VolatilityKDBG_v vm = None \<and> obj_truth kd \<and>
       (\<forall>t\<in>set ts. climb (self_obj_parent t) = Some kd) \<and>
       (\<not> hasattr st kd ''wait_always'' \<or> \<not> hasattr st kd ''wait_never'')"
  then show "Dpc_reads vm st ts =
             (st\<lparr>kdbg_scans := kdbg_scans st + length ts\<rparr>,
              replicate (length ts) (NoneObject ''Cannot find KDBG structure''))"
    by (intro Dpc_reads_scan_fail[where kd = kd]) simp_all
qed

text \<open>Three reads of the sample timer, with the scan succeeding and failing.\<close>

theorem secrets_cached_on_success_only_witness:
  "kdbg_scans (fst (Dpc_reads vm0 st0 [timer0, timer0, timer0])) \<le> 1
   \<and> hasattr (fst (Dpc_reads vm0 st0 [timer0, timer0, timer0])) kdbg0 ''wait_never''
   \<and> hasattr (fst (Dpc_reads vm0 st0 [timer0, timer0, timer0])) kdbg0 ''wait_always''
   \<and> Dpc_reads (vm0\<lparr>VolatilityKDBG_v := None\<rparr>) st0 [timer0, timer0, timer0] =
       (st0\<lparr>kdbg_scans := 3\<rparr>, replicate 3 (NoneObject ''Cannot find KDBG structure''))"
proof -
  have a: "VolatilityKDBG_v vm0 \<noteq> None" "md_memory_model vm0 \<noteq> Some ''32bit''"
    by (simp_all add: vm0_def)
  have b: "\<forall>t\<in>set [timer0, timer0, timer0]. climb (self_obj_parent t) = Some kdbg0"
    by (simp add: climb_timer0)
  then have b': "\<forall>t\<in>set [timer0, timer0, timer0].
      \<forall>p. climb (self_obj_parent t) = Some p \<longrightarrow> obj_id p = 0"
    by (simp add: kdbg0_def)
  have c: "obj_truth kdbg0" by (simp add: kdbg0_def)
  have d: "\<not> hasattr st0 kdbg0 ''wait_always'' \<or> \<not> hasattr st0 kdbg0 ''wait_never''"
    by (simp add: hasattr_def st0_def)
  have e: "md_memory_model (vm0\<lparr>VolatilityKDBG_v := None\<rparr>) \<noteq> Some ''32bit''"
    "VolatilityKDBG_v (vm0\<lparr>VolatilityKDBG_v := None\<rparr>) = None"
    by (simp_all add: vm0_def)
  have k0: "kdbg_scans st0 = 0" by (simp add: st0_def)
  from secrets_cached_on_success_only[of vm0 "[timer0, timer0, timer0]" 0 st0 kdbg0] a b b' c
  have 1: "kdbg_scans (fst (Dpc_reads vm0 st0 [timer0, timer0, timer0])) \<le> 1"
    and 2: "hasattr (fst (Dpc_reads vm0 st0 [timer0, timer0, timer0])) kdbg0 ''wait_never''"
    and 3: "hasattr (fst (Dpc_reads vm0 st0 [timer0, timer0, timer0])) kdbg0 ''wait_always''"
    unfolding k0 by simp_all
  from secrets_cached_on_success_only[of "vm0\<lparr>VolatilityKDBG_v := None\<rparr>" "[timer0, timer0, timer0]" 0 st0 kdbg0] b c d e
  have 4: "Dpc_reads (vm0\<lparr>VolatilityKDBG_v := None\<rparr>) st0 [timer0, timer0, timer0] =
       (st0\<lparr>kdbg_scans := 3\<rparr>, replicate 3 (NoneObject ''Cannot find KDBG structure''))"
    unfolding k0 by (simp add: numeral_3_eq_3)
  from 1 2 3 4 show ?thesis by blast
qed

text \<open>
  Claim C6 as stated: for version (5, 0) the run does not fail; it ends normally
  with no warning and no record.
\<close>

theorem unmatched_version_no_error_counterexample:
  "\<not> isl (calculate cfg0 vm50 [] st0) \<and>
   calculate cfg0 vm50 [] st0 = Inr \<lparr>warnings = [], state_after = st0, yielded = []\<rparr>"
  by (simp add: calculate_def collect_timers_def select_branch_def tuple_ge_def version_of_def
      build_of_def vm50_def vm0_def)

text \<open>
  Claim C6, amended. For every version that no branch matches, \<open>calculate\<close> ends
  normally with zero records, no warning and the state unchanged, whatever the
  image holds; no error is raised. Every major version below 5 and the version
  (5, 0) match no branch.
\<close>

theorem unmatched_version_yields_nothing:
  "(select_branch (version_of vm) (build_of vm) = None \<longrightarrow>
      calculate cfg vm modlist st = Inr \<lparr>warnings = [], state_after = st, yielded = []\<rparr>)
   \<and> (major < 5 \<or> (major, minor) = (5, 0) \<longrightarrow> select_branch (major, minor) build = None)"
  by (auto simp: calculate_def collect_timers_def select_branch_def tuple_ge_def)

text \<open>Version (5, 0) of the sample address space, and NT 4.0 and Windows 2000.\<close>

theorem unmatched_version_yields_nothing_witness:
  "calculate cfg0 vm50 [] st0 = Inr \<lparr>warnings = [], state_after = st0, yielded = []\<rparr>
   \<and> select_branch (4, 0) 1381 = None \<and> select_branch (5, 0) 2195 = None"
proof -
  have "select_branch (version_of vm50) (build_of vm50) = None"
    by (simp add: select_branch_def tuple_ge_def version_of_def build_of_def vm50_def vm0_def)
  with unmatched_version_yields_nothing[of vm50 cfg0 "[]" st0 4 0 1381] unmatched_version_yields_nothing[of vm50 cfg0 "[]" st0 5 0 2195]
  show ?thesis by simp
qed

text \<open>
  Claim C7. On a 32-bit target \<open>Dpc\<close> returns the stored member as it is, for
  every timer, parent chain and state, and leaves the state (cached attributes
  and number of scans) unchanged.
\<close>

theorem Dpc_32bit_direct: "md_memory_model vm = Some ''32bit'' \<Longrightarrow> Dpc vm st self = (st, Member (m_Dpc self))"
  by (simp add: Dpc_def)

text \<open>The sample timer on a 32-bit address space.\<close>

theorem Dpc_32bit_direct_witness:
  "Dpc (vm0\<lparr>md_memory_model := Some ''32bit''\<rparr>) st0 timer0 = (st0, Member 0x1122334455667788)"
  using Dpc_32bit_direct[of "vm0\<lparr>md_memory_model := Some ''32bit''\<rparr>" st0 timer0]
  by (simp add: vm0_def timer0_def)

text \<open>
  Claim C8. A collected timer of valid type whose callback cannot be resolved
  (no debugger object above it, or the secrets absent and the scan failing) is
  yielded by \<open>calculate\<close>, always with no module, and each row that \<open>generator\<close>
  and \<open>render_text\<close> produce for it names the module \<open>UNKNOWN\<close>; no row is lost.
\<close>

theorem unresolved_callback_still_emitted:
  assumes "collect_timers cfg vm modlist = Inr (ws, timers)"
    and "t \<in> set timers" and "Header_Type t \<in> set valid_types"
    and "dpc_unresolvable vm st t"
  shows "\<exists>res. calculate cfg vm modlist st = Inr res
           \<and> (t, None) \<in> set (yielded res)
           \<and> (\<forall>m. (t, m) \<in> set (yielded res) \<longrightarrow> m = None)
           \<and> length (snd (generator vm st' (yielded res))) = length (yielded res)
           \<and> (\<forall>i < length (yielded res). fst (yielded res ! i) = t \<longrightarrow>
                 row_module (snd (generator vm st' (yielded res)) ! i) = ''UNKNOWN'' \<and>
                 row_module (snd (snd (render_text vm st' (yielded res))) ! i) = ''UNKNOWN'')"
proof -
  obtain res where c: "calculate cfg vm modlist st = Inr res"
    and y: "yielded res = snd (attribute vm
             (map_of (rev (map (\<lambda>m. (address_mask vm (DllBase m), m)) modlist)))
             (sort (remdups (map (\<lambda>m. address_mask vm (DllBase m)) modlist))) st timers)"
    using calculate_Inr[OF assms(1), of st] by simp
  have a: "(t, None) \<in> set (yielded res)"
    unfolding y using attribute_unresolvable[OF assms(4,3)] assms(2) by blast
  have b: "\<forall>m. (t, m) \<in> set (yielded res) \<longrightarrow> m = None"
    unfolding y using attribute_unresolvable[OF assms(4,3)] by blast
  have rows: "\<forall>i < length (yielded res). fst (yielded res ! i) = t \<longrightarrow>
                 row_module (snd (generator vm st' (yielded res)) ! i) = ''UNKNOWN'' \<and>
                 row_module (snd (snd (render_text vm st' (yielded res))) ! i) = ''UNKNOWN''"
    unfolding render_text_rows using generator_unknown_rows[OF b] by blast
  from c a b length_generator rows show ?thesis by blast
qed

text \<open>A timer without a parent in the per-processor tables.\<close>

theorem unresolved_callback_still_emitted_witness:
  "\<exists>res. calculate cfg0 (vm0\<lparr>kpcr_timers := [orphan_timer]\<rparr>) [] st0 = Inr res
      \<and> (orphan_timer, None) \<in> set (yielded res)
      \<and> (\<forall>m. (orphan_timer, m) \<in> set (yielded res) \<longrightarrow> m = None)
      \<and> length (snd (generator (vm0\<lparr>kpcr_timers := [orphan_timer]\<rparr>) st0 (yielded res)))
          = length (yielded res)
      \<and> (\<forall>i < length (yielded res). fst (yielded res ! i) = orphan_timer \<longrightarrow>
            row_module (snd (generator (vm0\<lparr>kpcr_timers := [orphan_timer]\<rparr>) st0
                               (yielded res)) ! i) = ''UNKNOWN'' \<and>
            row_module (snd (snd (render_text (vm0\<lparr>kpcr_timers := [orphan_timer]\<rparr>) st0
                               (yielded res))) ! i) = ''UNKNOWN'')"
proof -
  have 1: "orphan_timer \<in> set [orphan_timer]" by simp
  have 2: "Header_Type orphan_timer \<in> set valid_types"
    by (simp add: orphan_timer_def valid_types_def TimerNotificationObject_def)
  have 3: "dpc_unresolvable (vm0\<lparr>kpcr_timers := [orphan_timer]\<rparr>) st0 orphan_timer"
    by (simp add: dpc_unresolvable_def orphan_timer_def vm0_def)
  show ?thesis by (rule unresolved_callback_still_emitted[OF collect_orphan 1 2 3])
qed

text \<open>
  Claim C9. The timers of the pairs that \<open>calculate\<close> yields are the collected
  timers whose header type is 8 or 9, in order: a record is discarded exactly
  when its type is neither.
\<close>

theorem type_filter:
  "collect_timers cfg vm modlist = Inr (ws, timers) \<Longrightarrow>
   \<exists>res. calculate cfg vm modlist st = Inr res \<and>
     map fst (yielded res) = filter (\<lambda>t. Header_Type t = 8 \<or> Header_Type t = 9) timers"
  by (simp add: calculate_Inr attribute_filter)

text \<open>Of the sample timers of types 7, 8 and 9 the first is dropped.\<close>

theorem type_filter_witness:
  "\<exists>res. calculate cfg0 vm0 [] st0 = Inr res \<and>
     map fst (yielded res) = [timer0\<lparr>Header_Type := 8\<rparr>, timer0]"
  using type_filter[OF collect_vm0, of st0] by (simp add: timer0_def)

text \<open>
  Claim C10 as stated: a module whose \<open>BaseDllName\<close> is the word UNKNOWN is
  attributed, and the row names the module \<open>UNKNOWN\<close> all the same.
\<close>

theorem module_named_unknown_counterexample:
  "row_module (hd (snd (generator vm0 st0 [(timer0, Some unknown_sys)]))) = ''UNKNOWN''"
  by (simp add: case_prod_unfold Let_def unknown_sys_def)

text \<open>
  Claim C10, amended. For every list of (timer, module) pairs \<open>generator\<close> and
  \<open>render_text\<close> compute the same rows: signaled is \<open>Yes\<close> iff the signal state is
  nonzero and \<open>-\<close> otherwise; the module name is \<open>UNKNOWN\<close> when no module was
  attributed, else the module's \<open>BaseDllName\<close> (empty when that is false); the due
  time is \<open>0x\<close> and the eight hexadecimal digits of the high part, a colon, and
  the same for the low part.
\<close>

theorem generator_render_text_same_rows:
  "snd (generator vm st data) = snd (snd (render_text vm st data))
   \<and> map row_signaled (snd (generator vm st data)) =
       map (\<lambda>(t, m). if Header_SignalState t \<noteq> 0 then ''Yes'' else ''-'') data
   \<and> map row_module (snd (generator vm st data)) =
       map (\<lambda>(t, m). case m of
                        Some m \<Rightarrow> (case BaseDllName m of Some s \<Rightarrow> s | None \<Rightarrow> [])
                      | None \<Rightarrow> ''UNKNOWN'') data
   \<and> map row_due_time (snd (generator vm st data)) =
       map (\<lambda>(t, m). ''0x'' @ hex8 (DueTime_HighPart t) @ '':0x'' @ hex8 (DueTime_LowPart t)) data"
  using render_text_rows[of vm st data] generator_signaled[of vm st data]
    generator_modules[of vm st data] generator_due_time[of vm st data]
  by simp

text \<open>
  The sample timer: due time (1, 0x80000000), signal state 1, no module.
\<close>

theorem generator_render_text_same_rows_witness:
  "snd (generator vm0 st0 [(timer0, None)]) = snd (snd (render_text vm0 st0 [(timer0, None)]))
   \<and> map row_signaled (snd (generator vm0 st0 [(timer0, None)])) = [''Yes'']
   \<and> map row_module (snd (generator vm0 st0 [(timer0, None)])) = [''UNKNOWN'']
   \<and> map row_due_time (snd (generator vm0 st0 [(timer0, None)])) = [''0x00000001:0x80000000'']"
proof -
  have h: "hex8 1 = ''00000001''" "hex8 0x80000000 = ''80000000''"
    by (simp_all add: hex8_def hex_char_def drop_bit_eq_div)
  have t: "Header_SignalState timer0 \<noteq> 0" "DueTime_HighPart timer0 = 1"
    "DueTime_LowPart timer0 = 0x80000000"
    by (simp_all add: timer0_def)
  note c = generator_render_text_same_rows[of vm0 st0 "[(timer0, None)]"]
  have 1: "snd (generator vm0 st0 [(timer0, None)]) =
           snd (snd (render_text vm0 st0 [(timer0, None)]))"
    using c by (rule conjunct1)
  have 2: "map row_signaled (snd (generator vm0 st0 [(timer0, None)])) = [''Yes'']"
    using c[THEN conjunct2, THEN conjunct1] by (simp add: t del: generator.simps)
  have 3: "map row_module (snd (generator vm0 st0 [(timer0, None)])) = [''UNKNOWN'']"
    using c[THEN conjunct2, THEN conjunct2, THEN conjunct1] by (simp del: generator.simps)
  have 4: "map row_due_time (snd (generator vm0 st0 [(timer0, None)])) =
           [''0x00000001:0x80000000'']"
    using c[THEN conjunct2, THEN conjunct2, THEN conjunct2]
    by (simp add: t h del: generator.simps)
  from 1 2 3 4 show ?thesis by (intro conjI)
qed

end
